theory Spec2Isabelle
  imports Main "HOL-Library.AList"
begin

section \<open>Python values\<close>

text \<open>
  Rows, schemas and bookmark values are JSON-like Python values. The test
  \<^verbatim>\<open>if bookmark:\<close> of \<^verbatim>\<open>sync_record\<close> is Python truthiness: \<^verbatim>\<open>None\<close>,
  \<^verbatim>\<open>False\<close>, \<^verbatim>\<open>0\<close>, the empty string and the empty containers are falsy.
\<close>

datatype pyval =
    PNone
  | PBool bool
  | PInt int
  | PStr string
  | PList "pyval list"
  | PDict "(string \<times> pyval) list"

fun truthy :: "pyval \<Rightarrow> bool" where
  "truthy PNone = False"
| "truthy (PBool b) = b"
| "truthy (PInt i) = (i \<noteq> 0)"
| "truthy (PStr s) = (s \<noteq> [])"
| "truthy (PList xs) = (xs \<noteq> [])"
| "truthy (PDict kvs) = (kvs \<noteq> [])"

text \<open>A dict with string keys, in insertion order.\<close>

type_synonym pydict = "(string \<times> pyval) list"

section \<open>Data model\<close>

text \<open>
  The tap state: the bookmarks of every stream and the currently-syncing marker
  (\<open>None\<close>: no stream is marked).
\<close>

record tap_state =
  bookmarks :: "(string \<times> pydict) list"
  currently_syncing :: "string option"

text \<open>
  The fields of a \<^verbatim>\<open>CatalogEntry\<close> that \<^verbatim>\<open>sync\<close> and \<^verbatim>\<open>sync_record\<close> read, and
  \<open>selected\<close>, the answer of its method \<^verbatim>\<open>is_selected()\<close>, which
  \<^verbatim>\<open>get_selected_streams\<close> reads.
\<close>

record CatalogEntry =
  tap_stream_id :: string
  schema :: pyval
  key_properties :: "string list"
  replication_key :: "string list"
  selected :: bool

text \<open>
  Every call that \<^verbatim>\<open>sync\<close> and \<^verbatim>\<open>sync_record\<close> make with an effect outside
  themselves, with its arguments: the calls into \<^verbatim>\<open>singer\<close>, the call of
  \<^verbatim>\<open>tools.clear_currently_syncing\<close>, the call of the client's fetch method and each
  row the \<^verbatim>\<open>for\<close> loop pulls from the generator it returned.
\<close>

datatype event =
    SetCurrentlySyncing string
  | WriteSchema string pyval "string list"
  | Fetch string int bool pydict
  | NextRow string pydict
  | WriteRecord string pydict nat
  | WriteBookmark string string pyval
  | ClearCurrentlySyncing
  | WriteState tap_state

text \<open>
  What the two functions act on: the state dict they mutate in place, the calls
  made so far (oldest first) and the number of readings of the wall clock taken so far.
\<close>

record world =
  state :: tap_state
  calls :: "event list"
  clock_reads :: nat

datatype error = AttributeError string | KeyError string

text \<open>
  A call either returns or raises; the world it leaves behind is kept in both
  cases, since the effects that happened before a raise are not undone.
\<close>

datatype outcome = Returned world | Raised error world

fun world_of :: "outcome \<Rightarrow> world" where
  "world_of (Returned w) = w"
| "world_of (Raised e w) = w"

fun returned :: "outcome \<Rightarrow> bool" where
  "returned (Returned w) = True"
| "returned (Raised e w) = False"

section \<open>The collaborators\<close>

text \<open>
  The modules \<^verbatim>\<open>tap_paypal.tools\<close> and \<^verbatim>\<open>tap_paypal.streams\<close> are imported by
  \<^verbatim>\<open>sync.py\<close> and are not part of the source at hand. The registry \<^verbatim>\<open>STREAMS\<close>
  (stream identifier to metadata, the metadata a dict with a key \<^verbatim>\<open>bookmark\<close>), the
  two pure helpers \<^verbatim>\<open>tools.retrieve_bookmark_with_path\<close> and
  \<^verbatim>\<open>tools.get_stream_state\<close>, and the wall clock (\<open>utcnow k\<close> is the \<open>k\<close>-th reading of
  \<^verbatim>\<open>datetime.now(timezone.utc)\<close>) are parameters of the model.
\<close>

record env =
  STREAMS :: "string \<rightharpoonup> (string \<rightharpoonup> string)"
  retrieve_bookmark_with_path :: "string list \<Rightarrow> pydict \<Rightarrow> pyval"
  get_stream_state :: "tap_state \<Rightarrow> string \<Rightarrow> string \<Rightarrow> pydict"
  utcnow :: "nat \<Rightarrow> nat"

text \<open>
  The API client: \<^verbatim>\<open>getattr(paypal, name)\<close> finds a fetch method or fails. A fetch
  method takes \<^verbatim>\<open>catchup_days\<close>, \<^verbatim>\<open>schemaless\<close> and the keyword arguments, and yields
  a finite sequence of rows. What happens inside the client (paging, network failures,
  keywords a method does not accept) is outside \<^verbatim>\<open>sync.py\<close> and is not modelled.
\<close>

type_synonym fetch = "int \<Rightarrow> bool \<Rightarrow> pydict \<Rightarrow> pydict list"

type_synonym PayPal = "string \<rightharpoonup> fetch"

text \<open>
  The catalog of singer: the list of its entries (\<^verbatim>\<open>catalog.streams\<close>), in the order
  of the catalog file.
\<close>

record Catalog =
  catalog_streams :: "CatalogEntry list"

subsection \<open>The selected streams\<close>

text \<open>
  \<^verbatim>\<open>Catalog.get_selected_streams(state)\<close> of singer. It first reorders the entries
  (\<^verbatim>\<open>_shuffle_streams\<close>): with no currently-syncing marker in the state they stay in
  catalog order; with a marker, the index of the first entry with that identifier is
  looked for (0 when there is none) and the list is cut there, the part from that
  index on coming first (\<^verbatim>\<open>streams[i:] + streams[:i]\<close>). It then yields the entries
  that are selected.
\<close>

fun first_match :: "string \<Rightarrow> CatalogEntry list \<Rightarrow> nat option" where
  "first_match sid [] = None"
| "first_match sid (entry # entries) =
     (if tap_stream_id entry = sid then Some 0 else map_option Suc (first_match sid entries))"

definition matching_index :: "string \<Rightarrow> CatalogEntry list \<Rightarrow> nat" where
  "matching_index sid entries = (case first_match sid entries of None \<Rightarrow> 0 | Some i \<Rightarrow> i)"

definition shuffle_streams :: "Catalog \<Rightarrow> tap_state \<Rightarrow> CatalogEntry list" where
  "shuffle_streams catalog st =
     (case currently_syncing st of
        None \<Rightarrow> catalog_streams catalog
      | Some sid \<Rightarrow>
          drop (matching_index sid (catalog_streams catalog)) (catalog_streams catalog)
            @ take (matching_index sid (catalog_streams catalog)) (catalog_streams catalog))"

definition get_selected_streams :: "Catalog \<Rightarrow> tap_state \<Rightarrow> CatalogEntry list" where
  "get_selected_streams catalog st = filter selected (shuffle_streams catalog st)"

subsection \<open>The state functions of singer\<close>

text \<open>
  \<^verbatim>\<open>singer.set_currently_syncing(state, id)\<close> stores \<^verbatim>\<open>state['currently_syncing'] = id\<close>.
\<close>

definition set_currently_syncing :: "tap_state \<Rightarrow> string \<Rightarrow> tap_state" where
  "set_currently_syncing st sid = st\<lparr>currently_syncing := Some sid\<rparr>"

text \<open>
  \<^verbatim>\<open>singer.write_bookmark(state, id, key, val)\<close> creates
  \<^verbatim>\<open>state['bookmarks'][id]\<close> when it is missing and stores
  \<^verbatim>\<open>state['bookmarks'][id][key] = val\<close>: an existing key keeps its place in the
  dict, a new one goes to the end.
\<close>

definition write_bookmark :: "tap_state \<Rightarrow> string \<Rightarrow> string \<Rightarrow> pyval \<Rightarrow> tap_state" where
  "write_bookmark st sid key val =
     st\<lparr>bookmarks :=
          AList.update sid
            (AList.update key val
               (case map_of (bookmarks st) sid of None \<Rightarrow> [] | Some m \<Rightarrow> m))
            (bookmarks st)\<rparr>"

text \<open>
  Modelled from the spec: \<^verbatim>\<open>tools.clear_currently_syncing\<close>, which is not in the
  source at hand. The spec: "Clear the "currently syncing" marker in the state."
\<close>

definition clear_currently_syncing :: "tap_state \<Rightarrow> tap_state" where
  "clear_currently_syncing st = st\<lparr>currently_syncing := None\<rparr>"

text \<open>Reading a bookmark back: \<^verbatim>\<open>state['bookmarks'][id][key]\<close>, when it is there.\<close>

definition get_bookmark :: "tap_state \<Rightarrow> string \<Rightarrow> string \<Rightarrow> pyval option" where
  "get_bookmark st sid key =
     (case map_of (bookmarks st) sid of None \<Rightarrow> None | Some m \<Rightarrow> map_of m key)"

subsection \<open>Calls, as steps on the world\<close>

definition log :: "event \<Rightarrow> world \<Rightarrow> world" where
  "log ev w = w\<lparr>calls := calls w @ [ev]\<rparr>"

definition singer_set_currently_syncing :: "string \<Rightarrow> world \<Rightarrow> world" where
  "singer_set_currently_syncing sid w =
     log (SetCurrentlySyncing sid) (w\<lparr>state := set_currently_syncing (state w) sid\<rparr>)"

definition singer_write_schema :: "string \<Rightarrow> pyval \<Rightarrow> string list \<Rightarrow> world \<Rightarrow> world" where
  "singer_write_schema sid sch kp w = log (WriteSchema sid sch kp) w"

text \<open>
  The keyword argument \<^verbatim>\<open>time_extracted=datetime.now(timezone.utc)\<close> is evaluated
  for the call: one reading of the clock, which tags the record.
\<close>

definition singer_write_record :: "env \<Rightarrow> string \<Rightarrow> pydict \<Rightarrow> world \<Rightarrow> world" where
  "singer_write_record e sid row w =
     log (WriteRecord sid row (utcnow e (clock_reads w)))
       (w\<lparr>clock_reads := Suc (clock_reads w)\<rparr>)"

definition singer_write_bookmark :: "string \<Rightarrow> string \<Rightarrow> pyval \<Rightarrow> world \<Rightarrow> world" where
  "singer_write_bookmark sid key val w =
     log (WriteBookmark sid key val) (w\<lparr>state := write_bookmark (state w) sid key val\<rparr>)"

definition tools_clear_currently_syncing :: "world \<Rightarrow> world" where
  "tools_clear_currently_syncing w =
     log ClearCurrentlySyncing (w\<lparr>state := clear_currently_syncing (state w)\<rparr>)"

definition singer_write_state :: "world \<Rightarrow> world" where
  "singer_write_state w = log (WriteState (state w)) w"

section \<open>sync_record\<close>

text \<open>
  The bookmark is retrieved, the row is written, and only a truthy bookmark goes
  on. The arguments of \<^verbatim>\<open>write_bookmark\<close> are evaluated before the call, so a
  failing lookup \<^verbatim>\<open>STREAMS[id]['bookmark']\<close> raises \<^verbatim>\<open>KeyError\<close> with the record
  written and the state untouched.
\<close>

definition sync_record :: "env \<Rightarrow> CatalogEntry \<Rightarrow> pydict \<Rightarrow> world \<Rightarrow> outcome" where
  "sync_record e stream row w =
     (let bookmark = retrieve_bookmark_with_path e (replication_key stream) row;
          w1 = singer_write_record e (tap_stream_id stream) row w
      in if truthy bookmark then
           (case STREAMS e (tap_stream_id stream) of
              None \<Rightarrow> Raised (KeyError (tap_stream_id stream)) w1
            | Some meta \<Rightarrow>
                (case meta ''bookmark'' of
                   None \<Rightarrow> Raised (KeyError ''bookmark'') w1
                 | Some field \<Rightarrow>
                     Returned
                       (singer_write_state
                          (tools_clear_currently_syncing
                             (singer_write_bookmark (tap_stream_id stream) field bookmark w1)))))
         else Returned w1)"

section \<open>sync\<close>

text \<open>
  The inner loop \<^verbatim>\<open>for row in tap_data(...): sync_record(stream, row, state)\<close>:
  the next row is pulled from the generator, handled, and only then the one after
  it. A raise in \<^verbatim>\<open>sync_record\<close> leaves the loop.
\<close>

fun sync_rows :: "env \<Rightarrow> CatalogEntry \<Rightarrow> pydict list \<Rightarrow> world \<Rightarrow> outcome" where
  "sync_rows e stream [] w = Returned w"
| "sync_rows e stream (row # rows) w =
     (case sync_record e stream row (log (NextRow (tap_stream_id stream) row) w) of
        Raised err w' \<Rightarrow> Raised err w'
      | Returned w' \<Rightarrow> sync_rows e stream rows w')"

text \<open>
  One pass of the outer loop: the marker is set, the stream state is resolved from
  the state as it then is, the schema is written, the fetch method is looked up
  (\<^verbatim>\<open>getattr\<close> raises \<^verbatim>\<open>AttributeError\<close> when the client has none of that
  name), and the method is called and its rows are handled.
\<close>

definition sync_stream ::
  "env \<Rightarrow> PayPal \<Rightarrow> string \<Rightarrow> int \<Rightarrow> bool \<Rightarrow> CatalogEntry \<Rightarrow> world \<Rightarrow> outcome" where
  "sync_stream e paypal start_date catchup_days schemaless stream w =
     (let w1 = singer_set_currently_syncing (tap_stream_id stream) w;
          stream_state = get_stream_state e (state w1) start_date (tap_stream_id stream);
          w2 = singer_write_schema (tap_stream_id stream) (schema stream)
                 (key_properties stream) w1
      in case paypal (tap_stream_id stream) of
           None \<Rightarrow> Raised (AttributeError (tap_stream_id stream)) w2
         | Some tap_data \<Rightarrow>
             sync_rows e stream (tap_data catchup_days schemaless stream_state)
               (log (Fetch (tap_stream_id stream) catchup_days schemaless stream_state) w2))"

fun sync_streams ::
  "env \<Rightarrow> PayPal \<Rightarrow> string \<Rightarrow> int \<Rightarrow> bool \<Rightarrow> CatalogEntry list \<Rightarrow> world \<Rightarrow> outcome" where
  "sync_streams e paypal start_date catchup_days schemaless [] w = Returned w"
| "sync_streams e paypal start_date catchup_days schemaless (stream # streams) w =
     (case sync_stream e paypal start_date catchup_days schemaless stream w of
        Raised err w' \<Rightarrow> Raised err w'
      | Returned w' \<Rightarrow> sync_streams e paypal start_date catchup_days schemaless streams w')"

text \<open>
  The outer loop runs over the generator \<^verbatim>\<open>catalog.get_selected_streams(state)\<close>,
  which reads the state once, when the loop asks for its first stream: the state as
  \<^verbatim>\<open>sync\<close> received it.
\<close>

definition sync ::
  "env \<Rightarrow> PayPal \<Rightarrow> Catalog \<Rightarrow> string \<Rightarrow> int \<Rightarrow> bool \<Rightarrow> world \<Rightarrow> outcome" where
  "sync e paypal catalog start_date catchup_days schemaless w =
     sync_streams e paypal start_date catchup_days schemaless
       (get_selected_streams catalog (state w)) w"

section \<open>The helpers of tools, as the spec describes them\<close>

text \<open>
  Modelled from the spec: \<^verbatim>\<open>tools.retrieve_bookmark_with_path\<close>, which is not in the
  source at hand. The spec: "Extract the bookmark value from the row by following the
  stream's configured replication-key field path (may be nested; may be absent:
  extraction returns an optional value, never raises on a missing path)."
\<close>

fun follow_path :: "string list \<Rightarrow> pyval \<Rightarrow> pyval" where
  "follow_path [] v = v"
| "follow_path (k # ks) (PDict kvs) =
     (case map_of kvs k of None \<Rightarrow> PNone | Some v \<Rightarrow> follow_path ks v)"
| "follow_path (k # ks) v = PNone"

definition retrieve_bookmark_with_path_spec :: "string list \<Rightarrow> pydict \<Rightarrow> pyval" where
  "retrieve_bookmark_with_path_spec path row =
     (if path = [] then PNone else follow_path path (PDict row))"

text \<open>
  Modelled from the spec: \<^verbatim>\<open>tools.get_stream_state\<close>, which is not in the source at
  hand. The spec: "if the state already holds a bookmark for this stream, use it;
  otherwise default to the configured start date." The keyword \<^verbatim>\<open>start_date\<close> is the
  one the comment in \<^verbatim>\<open>sync\<close> names.
\<close>

definition get_stream_state_spec :: "tap_state \<Rightarrow> string \<Rightarrow> string \<Rightarrow> pydict" where
  "get_stream_state_spec st start_date sid =
     (case map_of (bookmarks st) sid of
        None \<Rightarrow> [(''start_date'', PStr start_date)]
      | Some m \<Rightarrow> m)"

section \<open>Reading the call log\<close>

text \<open>The calls one run has added to the log.\<close>

definition new_calls :: "world \<Rightarrow> world \<Rightarrow> event list" where
  "new_calls w w' = drop (length (calls w)) (calls w')"

fun records_written :: "event list \<Rightarrow> (string \<times> pydict) list" where
  "records_written [] = []"
| "records_written (WriteRecord sid row t # evs) = (sid, row) # records_written evs"
| "records_written (ev # evs) = records_written evs"

fun bookmarks_written :: "event list \<Rightarrow> (string \<times> string \<times> pyval) list" where
  "bookmarks_written [] = []"
| "bookmarks_written (WriteBookmark sid key val # evs) = (sid, key, val) # bookmarks_written evs"
| "bookmarks_written (ev # evs) = bookmarks_written evs"

fun schemas_written :: "event list \<Rightarrow> string list" where
  "schemas_written [] = []"
| "schemas_written (WriteSchema sid sch kp # evs) = sid # schemas_written evs"
| "schemas_written (ev # evs) = schemas_written evs"

fun streams_marked :: "event list \<Rightarrow> string list" where
  "streams_marked [] = []"
| "streams_marked (SetCurrentlySyncing sid # evs) = sid # streams_marked evs"
| "streams_marked (ev # evs) = streams_marked evs"

fun states_written :: "event list \<Rightarrow> tap_state list" where
  "states_written [] = []"
| "states_written (WriteState st # evs) = st # states_written evs"
| "states_written (ev # evs) = states_written evs"

text \<open>
  Every record in the log is written after a schema of its own stream: \<open>seen\<close>
  holds the streams whose schema has been written so far.
\<close>

fun records_follow_schema :: "string set \<Rightarrow> event list \<Rightarrow> bool" where
  "records_follow_schema seen [] = True"
| "records_follow_schema seen (WriteSchema sid sch kp # evs) =
     records_follow_schema (insert sid seen) evs"
| "records_follow_schema seen (WriteRecord sid row t # evs) =
     (sid \<in> seen \<and> records_follow_schema seen evs)"
| "records_follow_schema seen (ev # evs) = records_follow_schema seen evs"

section \<open>The scenario of the spec\<close>

text \<open>
  Stream \<^verbatim>\<open>paypal_transactions\<close> with the bookmark field \<^verbatim>\<open>date_modified\<close>, an empty
  state, the start date \<^verbatim>\<open>2020-01-01T00:00:00Z\<close>, and a client that yields two rows.
\<close>

definition scenario_env :: env where
  "scenario_env =
     \<lparr>STREAMS = [''paypal_transactions'' \<mapsto> [''bookmark'' \<mapsto> ''date_modified'']],
      retrieve_bookmark_with_path = retrieve_bookmark_with_path_spec,
      get_stream_state = get_stream_state_spec,
      utcnow = (\<lambda>k. 1000 + k)\<rparr>"

definition scenario_stream :: CatalogEntry where
  "scenario_stream =
     \<lparr>tap_stream_id = ''paypal_transactions'',
      schema = PDict [(''type'', PStr ''object'')],
      key_properties = [''id''],
      replication_key = [''date_modified''],
      selected = True\<rparr>"

definition scenario_row1 :: pydict where
  "scenario_row1 = [(''id'', PInt 1), (''date_modified'', PStr ''2020-01-02T00:00:00Z'')]"

definition scenario_row2 :: pydict where
  "scenario_row2 = [(''id'', PInt 2), (''date_modified'', PStr ''2020-01-03T00:00:00Z'')]"

definition scenario_paypal :: PayPal where
  "scenario_paypal =
     [''paypal_transactions'' \<mapsto> (\<lambda>catchup_days schemaless kwargs. [scenario_row1, scenario_row2])]"

definition empty_state :: tap_state where
  "empty_state = \<lparr>bookmarks = [], currently_syncing = None\<rparr>"

definition scenario_world :: world where
  "scenario_world = \<lparr>state = empty_state, calls = [], clock_reads = 0\<rparr>"

text \<open>
  Variations on the scenario: a stream the registry does not know, a stream the
  client has no method for, and rows whose replication key is missing or falsy.
\<close>

definition unregistered_stream :: CatalogEntry where
  "unregistered_stream =
     \<lparr>tap_stream_id = ''paypal_refunds'',
      schema = PDict [],
      key_properties = [''id''],
      replication_key = [''date_modified''],
      selected = True\<rparr>"

definition row_without_key :: pydict where
  "row_without_key = [(''id'', PInt 3)]"

definition row_with_empty_key :: pydict where
  "row_with_empty_key = [(''id'', PInt 4), (''date_modified'', PStr [])]"

text \<open>A state left by an earlier run: an older bookmark, and the marker still set.\<close>

definition old_state :: tap_state where
  "old_state =
     \<lparr>bookmarks = [(''paypal_transactions'', [(''date_modified'', PStr ''2019-12-31T00:00:00Z'')])],
      currently_syncing = Some ''paypal_transactions''\<rparr>"

definition old_world :: world where
  "old_world = \<lparr>state = old_state, calls = [], clock_reads = 0\<rparr>"

text \<open>The world after a row that carries a bookmark, for a stream the registry knows.\<close>

definition after_bookmarked_row :: "env \<Rightarrow> CatalogEntry \<Rightarrow> string \<Rightarrow> pydict \<Rightarrow> world \<Rightarrow> world" where
  "after_bookmarked_row e stream field row w =
     singer_write_state
       (tools_clear_currently_syncing
          (singer_write_bookmark (tap_stream_id stream) field
             (retrieve_bookmark_with_path e (replication_key stream) row)
             (singer_write_record e (tap_stream_id stream) row
                (log (NextRow (tap_stream_id stream) row) w))))"

text \<open>A catalog that selects a stream the client has no method for, then the stream of the scenario.\<close>

definition two_stream_catalog :: Catalog where
  "two_stream_catalog = \<lparr>catalog_streams = [unregistered_stream, scenario_stream]\<rparr>"

text \<open>
  A second stream, which the client and the registry know and whose rows carry no
  replication key, a stream that is not selected, a catalog with the three of them,
  and a state whose marker names the second stream, as an interrupted run leaves it.
\<close>

definition balances_stream :: CatalogEntry where
  "balances_stream =
     \<lparr>tap_stream_id = ''paypal_balances'',
      schema = PDict [],
      key_properties = [''currency''],
      replication_key = [''as_of_time''],
      selected = True\<rparr>"

definition skipped_stream :: CatalogEntry where
  "skipped_stream =
     \<lparr>tap_stream_id = ''paypal_disputes'',
      schema = PDict [],
      key_properties = [''id''],
      replication_key = [''date_modified''],
      selected = False\<rparr>"

definition balance_row :: pydict where
  "balance_row = [(''currency'', PStr ''EUR'')]"

definition resume_catalog :: Catalog where
  "resume_catalog = \<lparr>catalog_streams = [scenario_stream, skipped_stream, balances_stream]\<rparr>"

definition resume_paypal :: PayPal where
  "resume_paypal =
     [''paypal_transactions'' \<mapsto> (\<lambda>catchup_days schemaless kwargs. [scenario_row1, scenario_row2]),
      ''paypal_balances'' \<mapsto> (\<lambda>catchup_days schemaless kwargs. [balance_row])]"

definition resume_env :: env where
  "resume_env =
     \<lparr>STREAMS = [''paypal_transactions'' \<mapsto> [''bookmark'' \<mapsto> ''date_modified''],
                 ''paypal_balances'' \<mapsto> [''bookmark'' \<mapsto> ''as_of_time'']],
      retrieve_bookmark_with_path = retrieve_bookmark_with_path_spec,
      get_stream_state = get_stream_state_spec,
      utcnow = (\<lambda>k. 1000 + k)\<rparr>"

definition resume_world :: world where
  "resume_world =
     \<lparr>state = \<lparr>bookmarks = [], currently_syncing = Some ''paypal_balances''\<rparr>,
      calls = [], clock_reads = 0\<rparr>"

section \<open>The marker, read from the call log\<close>




section \<open>The streams a run reaches\<close>

text \<open>
  The number of selected streams the driver starts on: a stream is reached when
  every stream before it has returned.
\<close>

fun streams_reached ::
  "env \<Rightarrow> PayPal \<Rightarrow> string \<Rightarrow> int \<Rightarrow> bool \<Rightarrow> CatalogEntry list \<Rightarrow> world \<Rightarrow> nat" where
  "streams_reached e paypal start_date catchup_days schemaless [] w = 0"
| "streams_reached e paypal start_date catchup_days schemaless (stream # streams) w =
     Suc (case sync_stream e paypal start_date catchup_days schemaless stream w of
            Raised err w' \<Rightarrow> 0
          | Returned w' \<Rightarrow> streams_reached e paypal start_date catchup_days schemaless streams w')"

section \<open>Facts about the state functions\<close>

lemma get_bookmark_write_bookmark:
  "get_bookmark (write_bookmark st sid key val) sid' key' =
     (if sid' = sid \<and> key' = key then Some val else get_bookmark st sid' key')"
  by (auto simp: get_bookmark_def write_bookmark_def update_conv' split: option.splits)

lemma get_bookmark_clear:
  "get_bookmark (clear_currently_syncing st) sid key = get_bookmark st sid key"
  by (simp add: get_bookmark_def clear_currently_syncing_def)

lemmas call_defs =
  log_def singer_set_currently_syncing_def singer_write_schema_def singer_write_record_def
  singer_write_bookmark_def tools_clear_currently_syncing_def singer_write_state_def

section \<open>sync_record, case by case\<close>

lemma sync_record_falsy:
  "\<not> truthy (retrieve_bookmark_with_path e (replication_key stream) row) \<Longrightarrow>
   sync_record e stream row w = Returned (singer_write_record e (tap_stream_id stream) row w)"
  by (simp add: sync_record_def)

lemma sync_record_unregistered:
  "truthy (retrieve_bookmark_with_path e (replication_key stream) row) \<Longrightarrow>
   STREAMS e (tap_stream_id stream) = None \<Longrightarrow>
   sync_record e stream row w =
     Raised (KeyError (tap_stream_id stream)) (singer_write_record e (tap_stream_id stream) row w)"
  by (simp add: sync_record_def)

lemma sync_record_no_field:
  "truthy (retrieve_bookmark_with_path e (replication_key stream) row) \<Longrightarrow>
   STREAMS e (tap_stream_id stream) = Some meta \<Longrightarrow> meta ''bookmark'' = None \<Longrightarrow>
   sync_record e stream row w =
     Raised (KeyError ''bookmark'') (singer_write_record e (tap_stream_id stream) row w)"
  by (simp add: sync_record_def)

lemma sync_record_bookmarked:
  "truthy (retrieve_bookmark_with_path e (replication_key stream) row) \<Longrightarrow>
   STREAMS e (tap_stream_id stream) = Some meta \<Longrightarrow> meta ''bookmark'' = Some field \<Longrightarrow>
   sync_record e stream row w =
     Returned
       (singer_write_state
          (tools_clear_currently_syncing
             (singer_write_bookmark (tap_stream_id stream) field
                (retrieve_bookmark_with_path e (replication_key stream) row)
                (singer_write_record e (tap_stream_id stream) row w))))"
  by (simp add: sync_record_def)

lemma sync_record_returned_registry:
  assumes "truthy (retrieve_bookmark_with_path e (replication_key stream) row)"
      and "sync_record e stream row w = Returned w'"
  obtains meta field where "STREAMS e (tap_stream_id stream) = Some meta"
      and "meta ''bookmark'' = Some field"
  using assms by (auto simp: sync_record_def Let_def split: option.splits)

text \<open>
  Claim C1. A row whose replication key yields a bookmark (a value that passes
  \<^verbatim>\<open>if bookmark:\<close>), handled by a \<^verbatim>\<open>sync_record\<close> that returns: the registry names
  the bookmark field of the stream, the state holds the extracted value under the
  stream and that field whatever was there before, every other bookmark is as it was,
  the marker is cleared, and the calls made are, in this order, the record, the
  bookmark, the clearing of the marker and the flush of the state as it is at the end.
\<close>

theorem sync_record_writes_bookmark:
  assumes "truthy (retrieve_bookmark_with_path e (replication_key stream) row)"
      and "sync_record e stream row w = Returned w'"
  shows "\<exists>meta field.
           STREAMS e (tap_stream_id stream) = Some meta \<and> meta ''bookmark'' = Some field \<and>
           get_bookmark (state w') (tap_stream_id stream) field =
             Some (retrieve_bookmark_with_path e (replication_key stream) row) \<and>
           (\<forall>sid key. (sid, key) \<noteq> (tap_stream_id stream, field) \<longrightarrow>
              get_bookmark (state w') sid key = get_bookmark (state w) sid key) \<and>
           currently_syncing (state w') = None \<and>
           calls w' = calls w @
             [WriteRecord (tap_stream_id stream) row (utcnow e (clock_reads w)),
              WriteBookmark (tap_stream_id stream) field
                (retrieve_bookmark_with_path e (replication_key stream) row),
              ClearCurrentlySyncing,
              WriteState (state w')]"
proof -
  from assms obtain meta field
    where reg: "STREAMS e (tap_stream_id stream) = Some meta" "meta ''bookmark'' = Some field"
    by (rule sync_record_returned_registry)
  let ?b = "retrieve_bookmark_with_path e (replication_key stream) row"
  have w': "w' = singer_write_state (tools_clear_currently_syncing
                   (singer_write_bookmark (tap_stream_id stream) field ?b
                      (singer_write_record e (tap_stream_id stream) row w)))"
    using sync_record_bookmarked [OF assms(1) reg, of w] assms(2) by simp
  have st: "state w' = clear_currently_syncing (write_bookmark (state w) (tap_stream_id stream) field ?b)"
    by (simp add: w' call_defs)
  have "get_bookmark (state w') (tap_stream_id stream) field = Some ?b"
    by (simp add: st get_bookmark_clear get_bookmark_write_bookmark)
  moreover have "\<forall>sid key. (sid, key) \<noteq> (tap_stream_id stream, field) \<longrightarrow>
              get_bookmark (state w') sid key = get_bookmark (state w) sid key"
    by (simp add: st get_bookmark_clear get_bookmark_write_bookmark)
  moreover have "currently_syncing (state w') = None"
    by (simp add: st clear_currently_syncing_def)
  moreover have "calls w' = calls w @
             [WriteRecord (tap_stream_id stream) row (utcnow e (clock_reads w)),
              WriteBookmark (tap_stream_id stream) field ?b,
              ClearCurrentlySyncing,
              WriteState (state w')]"
    by (simp add: w' call_defs)
  ultimately show ?thesis using reg by blast
qed

lemma scenario_bookmark1:
  "retrieve_bookmark_with_path scenario_env (replication_key scenario_stream) scenario_row1
     = PStr ''2020-01-02T00:00:00Z''"
  by (simp add: scenario_env_def scenario_stream_def scenario_row1_def
      retrieve_bookmark_with_path_spec_def)

lemma scenario_bookmark2:
  "retrieve_bookmark_with_path scenario_env (replication_key scenario_stream) scenario_row2
     = PStr ''2020-01-03T00:00:00Z''"
  by (simp add: scenario_env_def scenario_stream_def scenario_row2_def
      retrieve_bookmark_with_path_spec_def)

lemma scenario_registry:
  "STREAMS scenario_env (tap_stream_id scenario_stream) = Some [''bookmark'' \<mapsto> ''date_modified'']"
  by (simp add: scenario_env_def scenario_stream_def)

lemma scenario_record1:
  "sync_record scenario_env scenario_stream scenario_row1 old_world =
     Returned
       \<lparr>state = \<lparr>bookmarks = [(''paypal_transactions'',
                      [(''date_modified'', PStr ''2020-01-02T00:00:00Z'')])],
                  currently_syncing = None\<rparr>,
        calls = [WriteRecord ''paypal_transactions'' scenario_row1 1000,
                 WriteBookmark ''paypal_transactions'' ''date_modified'' (PStr ''2020-01-02T00:00:00Z''),
                 ClearCurrentlySyncing,
                 WriteState \<lparr>bookmarks = [(''paypal_transactions'',
                      [(''date_modified'', PStr ''2020-01-02T00:00:00Z'')])],
                  currently_syncing = None\<rparr>],
        clock_reads = 1\<rparr>"
  by (simp add: sync_record_def Let_def scenario_bookmark1 scenario_registry call_defs
      old_world_def old_state_def write_bookmark_def clear_currently_syncing_def)
     (simp add: scenario_env_def scenario_stream_def)

theorem sync_record_writes_bookmark_witness:
  "truthy (retrieve_bookmark_with_path scenario_env (replication_key scenario_stream) scenario_row1) \<and>
   returned (sync_record scenario_env scenario_stream scenario_row1 old_world) \<and>
   get_bookmark (state old_world) ''paypal_transactions'' ''date_modified''
       = Some (PStr ''2019-12-31T00:00:00Z'') \<and>
   currently_syncing (state old_world) = Some ''paypal_transactions'' \<and>
   get_bookmark (state (world_of (sync_record scenario_env scenario_stream scenario_row1 old_world)))
       ''paypal_transactions'' ''date_modified''
       = Some (PStr ''2020-01-02T00:00:00Z'') \<and>
   currently_syncing
     (state (world_of (sync_record scenario_env scenario_stream scenario_row1 old_world))) = None"
proof -
  have t: "truthy (retrieve_bookmark_with_path scenario_env (replication_key scenario_stream) scenario_row1)"
    by (simp add: scenario_bookmark1)
  from sync_record_writes_bookmark [OF t scenario_record1]
  have "get_bookmark (state (world_of (sync_record scenario_env scenario_stream scenario_row1 old_world)))
          ''paypal_transactions'' ''date_modified'' = Some (PStr ''2020-01-02T00:00:00Z'') \<and>
        currently_syncing
          (state (world_of (sync_record scenario_env scenario_stream scenario_row1 old_world))) = None"
    by (simp add: scenario_record1 scenario_bookmark1 scenario_registry)
       (simp add: scenario_stream_def)
  moreover have "returned (sync_record scenario_env scenario_stream scenario_row1 old_world)"
    by (simp add: scenario_record1)
  moreover have "get_bookmark (state old_world) ''paypal_transactions'' ''date_modified''
       = Some (PStr ''2019-12-31T00:00:00Z'')"
    by (simp add: get_bookmark_def old_world_def old_state_def)
  moreover have "currently_syncing (state old_world) = Some ''paypal_transactions''"
    by (simp add: old_world_def old_state_def)
  ultimately show ?thesis
    using t by blast
qed

lemma sync_record_cases:
  obtains
    (falsy) "\<not> truthy (retrieve_bookmark_with_path e (replication_key stream) row)"
      "sync_record e stream row w = Returned (singer_write_record e (tap_stream_id stream) row w)"
  | (unregistered) "truthy (retrieve_bookmark_with_path e (replication_key stream) row)"
      "STREAMS e (tap_stream_id stream) = None"
      "sync_record e stream row w =
         Raised (KeyError (tap_stream_id stream)) (singer_write_record e (tap_stream_id stream) row w)"
  | (no_field) meta where "truthy (retrieve_bookmark_with_path e (replication_key stream) row)"
      "STREAMS e (tap_stream_id stream) = Some meta" "meta ''bookmark'' = None"
      "sync_record e stream row w =
         Raised (KeyError ''bookmark'') (singer_write_record e (tap_stream_id stream) row w)"
  | (bookmarked) meta field where "truthy (retrieve_bookmark_with_path e (replication_key stream) row)"
      "STREAMS e (tap_stream_id stream) = Some meta" "meta ''bookmark'' = Some field"
      "sync_record e stream row w =
         Returned
           (singer_write_state
              (tools_clear_currently_syncing
                 (singer_write_bookmark (tap_stream_id stream) field
                    (retrieve_bookmark_with_path e (replication_key stream) row)
                    (singer_write_record e (tap_stream_id stream) row w))))"
proof (cases "truthy (retrieve_bookmark_with_path e (replication_key stream) row)")
  case False
  then show ?thesis using falsy sync_record_falsy by blast
next
  case t: True
  show ?thesis
  proof (cases "STREAMS e (tap_stream_id stream)")
    case None
    then show ?thesis using t unregistered sync_record_unregistered by blast
  next
    case (Some meta)
    then show ?thesis
      using t no_field [of meta] bookmarked [of meta] sync_record_no_field sync_record_bookmarked
      by (cases "meta ''bookmark''") blast+
  qed
qed

text \<open>
  Claim C3. Whatever the row, the first call \<^verbatim>\<open>sync_record\<close> makes is
  \<^verbatim>\<open>write_record\<close> with the stream, the row and the time read from the clock for this
  call (one reading is taken, and the tag is that reading, not a field of the row).
  When no bookmark is found (the helper gives \<^verbatim>\<open>None\<close>), \<^verbatim>\<open>sync_record\<close> returns,
  the state is the one it was given, and the record is the only call made: no
  bookmark is written, the marker is not cleared, the state is not flushed.
\<close>

theorem sync_record_emits_row:
  "take (Suc (length (calls w))) (calls (world_of (sync_record e stream row w)))
     = calls w @ [WriteRecord (tap_stream_id stream) row (utcnow e (clock_reads w))] \<and>
   clock_reads (world_of (sync_record e stream row w)) = Suc (clock_reads w) \<and>
   (retrieve_bookmark_with_path e (replication_key stream) row = PNone \<longrightarrow>
      returned (sync_record e stream row w) \<and>
      state (world_of (sync_record e stream row w)) = state w \<and>
      calls (world_of (sync_record e stream row w))
        = calls w @ [WriteRecord (tap_stream_id stream) row (utcnow e (clock_reads w))])"
  by (cases e stream row w rule: sync_record_cases) (auto simp: call_defs)

theorem sync_record_emits_row_witness:
  "retrieve_bookmark_with_path scenario_env (replication_key scenario_stream) row_without_key = PNone \<and>
   returned (sync_record scenario_env scenario_stream row_without_key old_world) \<and>
   state (world_of (sync_record scenario_env scenario_stream row_without_key old_world)) = old_state \<and>
   calls (world_of (sync_record scenario_env scenario_stream row_without_key old_world))
     = [WriteRecord ''paypal_transactions'' row_without_key 1000]"
proof -
  have n: "retrieve_bookmark_with_path scenario_env (replication_key scenario_stream) row_without_key = PNone"
    by (simp add: scenario_env_def scenario_stream_def row_without_key_def
        retrieve_bookmark_with_path_spec_def)
  have "tap_stream_id scenario_stream = ''paypal_transactions''"
    by (simp add: scenario_stream_def)
  moreover have "utcnow scenario_env (clock_reads old_world) = 1000"
    by (simp add: scenario_env_def old_world_def)
  moreover have "state old_world = old_state" "calls old_world = []"
    by (simp_all add: old_world_def)
  ultimately show ?thesis
    using n sync_record_emits_row [of old_world scenario_env scenario_stream row_without_key]
    by simp
qed

text \<open>
  Claim C8. A row whose replication key resolves to a falsy value is handled exactly
  as if the helper had found nothing: the outcome is the one \<^verbatim>\<open>sync_record\<close> has with
  a helper that gives \<^verbatim>\<open>None\<close>, that is, it returns with the record written as the
  only call, the state (bookmarks and marker) as it was, and nothing flushed. The
  empty string, \<^verbatim>\<open>0\<close> and \<^verbatim>\<open>None\<close> are such values.
\<close>

theorem sync_record_falsy_bookmark:
  assumes "\<not> truthy (retrieve_bookmark_with_path e (replication_key stream) row)"
  shows "sync_record e stream row w
           = sync_record (e\<lparr>retrieve_bookmark_with_path := (\<lambda>path r. PNone)\<rparr>) stream row w \<and>
         sync_record e stream row w
           = Returned (w\<lparr>calls := calls w @
                          [WriteRecord (tap_stream_id stream) row (utcnow e (clock_reads w))],
                        clock_reads := Suc (clock_reads w)\<rparr>) \<and>
         state (world_of (sync_record e stream row w)) = state w \<and>
         bookmarks_written (new_calls w (world_of (sync_record e stream row w))) = [] \<and>
         states_written (new_calls w (world_of (sync_record e stream row w))) = [] \<and>
         \<not> truthy (PStr []) \<and> \<not> truthy (PInt 0) \<and> \<not> truthy PNone"
  using assms by (simp add: sync_record_def call_defs new_calls_def)

theorem sync_record_falsy_bookmark_witness:
  "retrieve_bookmark_with_path scenario_env (replication_key scenario_stream) row_with_empty_key
     = PStr [] \<and>
   sync_record scenario_env scenario_stream row_with_empty_key old_world
     = Returned (old_world\<lparr>calls := [WriteRecord ''paypal_transactions'' row_with_empty_key 1000],
                           clock_reads := 1\<rparr>) \<and>
   currently_syncing (state (world_of
       (sync_record scenario_env scenario_stream row_with_empty_key old_world)))
     = Some ''paypal_transactions''"
proof -
  have v: "retrieve_bookmark_with_path scenario_env (replication_key scenario_stream) row_with_empty_key
             = PStr []"
    by (simp add: scenario_env_def scenario_stream_def row_with_empty_key_def
        retrieve_bookmark_with_path_spec_def)
  then have f: "\<not> truthy (retrieve_bookmark_with_path scenario_env (replication_key scenario_stream)
                   row_with_empty_key)"
    by simp
  have "tap_stream_id scenario_stream = ''paypal_transactions''"
    by (simp add: scenario_stream_def)
  moreover have "utcnow scenario_env (clock_reads old_world) = 1000"
    by (simp add: scenario_env_def old_world_def)
  moreover have "calls old_world = []" "clock_reads old_world = 0"
     "currently_syncing (state old_world) = Some ''paypal_transactions''"
    by (simp_all add: old_world_def old_state_def)
  moreover from sync_record_falsy_bookmark [OF f, of old_world]
  have "sync_record scenario_env scenario_stream row_with_empty_key old_world
          = Returned (old_world\<lparr>calls := calls old_world @
                [WriteRecord (tap_stream_id scenario_stream) row_with_empty_key
                   (utcnow scenario_env (clock_reads old_world))],
              clock_reads := Suc (clock_reads old_world)\<rparr>)"
    by (elim conjE)
  ultimately show ?thesis
    using v by simp
qed

text \<open>
  Claim C10. A row with a truthy bookmark, for a stream that is not a key of
  \<^verbatim>\<open>STREAMS\<close>: \<^verbatim>\<open>sync_record\<close> raises \<^verbatim>\<open>KeyError\<close> for the stream identifier. The record
  has been written by then and is the only call made; the state (bookmarks and
  marker) is as it was and nothing is flushed. The loop over the rows stops there:
  no later row is pulled.
\<close>

theorem sync_record_unknown_stream:
  assumes "truthy (retrieve_bookmark_with_path e (replication_key stream) row)"
      and "STREAMS e (tap_stream_id stream) = None"
  shows "sync_record e stream row w
           = Raised (KeyError (tap_stream_id stream))
               (w\<lparr>calls := calls w @
                     [WriteRecord (tap_stream_id stream) row (utcnow e (clock_reads w))],
                   clock_reads := Suc (clock_reads w)\<rparr>) \<and>
         state (world_of (sync_record e stream row w)) = state w \<and>
         sync_rows e stream (row # rows) w
           = Raised (KeyError (tap_stream_id stream))
               (w\<lparr>calls := calls w @
                     [NextRow (tap_stream_id stream) row,
                      WriteRecord (tap_stream_id stream) row (utcnow e (clock_reads w))],
                   clock_reads := Suc (clock_reads w)\<rparr>)"
  using assms by (simp add: sync_record_def call_defs)

theorem sync_record_unknown_stream_witness:
  "truthy (retrieve_bookmark_with_path scenario_env (replication_key unregistered_stream) scenario_row1) \<and>
   STREAMS scenario_env (tap_stream_id unregistered_stream) = None \<and>
   sync_rows scenario_env unregistered_stream [scenario_row1, scenario_row2] old_world
     = Raised (KeyError ''paypal_refunds'')
         (old_world\<lparr>calls := [NextRow ''paypal_refunds'' scenario_row1,
                               WriteRecord ''paypal_refunds'' scenario_row1 1000],
                     clock_reads := 1\<rparr>)"
proof -
  have t: "truthy (retrieve_bookmark_with_path scenario_env (replication_key unregistered_stream)
                     scenario_row1)"
    by (simp add: scenario_env_def unregistered_stream_def scenario_row1_def
        retrieve_bookmark_with_path_spec_def)
  have r: "STREAMS scenario_env (tap_stream_id unregistered_stream) = None"
    by (simp add: scenario_env_def unregistered_stream_def)
  have "tap_stream_id unregistered_stream = ''paypal_refunds''"
    by (simp add: unregistered_stream_def)
  moreover have "utcnow scenario_env (clock_reads old_world) = 1000"
    by (simp add: scenario_env_def old_world_def)
  moreover have "calls old_world = []" "clock_reads old_world = 0"
    by (simp_all add: old_world_def)
  ultimately show ?thesis
    using t r sync_record_unknown_stream [OF t r, of old_world "[scenario_row2]"]
    by simp
qed

section \<open>The loop over the rows\<close>

lemma records_written_append:
  "records_written (xs @ ys) = records_written xs @ records_written ys"
  by (induction xs rule: records_written.induct) simp_all

lemma new_calls_append: "calls w' = calls w @ new \<Longrightarrow> new_calls w w' = new"
  by (simp add: new_calls_def)

lemma sync_rows_append:
  "sync_rows e stream (rows1 @ rows2) w =
     (case sync_rows e stream rows1 w of
        Raised err w' \<Rightarrow> Raised err w'
      | Returned w' \<Rightarrow> sync_rows e stream rows2 w')"
  by (induction rows1 arbitrary: w) (simp_all split: outcome.splits)

lemma sync_rows_bookmarked_step:
  assumes "truthy (retrieve_bookmark_with_path e (replication_key stream) row)"
      and "STREAMS e (tap_stream_id stream) = Some meta" "meta ''bookmark'' = Some field"
  shows "sync_rows e stream (row # rows) w
           = sync_rows e stream rows (after_bookmarked_row e stream field row w)"
  by (simp add: sync_record_bookmarked [OF assms] after_bookmarked_row_def)

lemma calls_after_bookmarked_row:
  "calls (after_bookmarked_row e stream field row w) =
     calls w @
       [NextRow (tap_stream_id stream) row,
        WriteRecord (tap_stream_id stream) row (utcnow e (clock_reads w)),
        WriteBookmark (tap_stream_id stream) field
          (retrieve_bookmark_with_path e (replication_key stream) row),
        ClearCurrentlySyncing,
        WriteState (state (after_bookmarked_row e stream field row w))]"
  by (simp add: after_bookmarked_row_def call_defs)

lemma state_after_bookmarked_row:
  "state (after_bookmarked_row e stream field row w) =
     clear_currently_syncing
       (write_bookmark (state w) (tap_stream_id stream) field
          (retrieve_bookmark_with_path e (replication_key stream) row))"
  by (simp add: after_bookmarked_row_def call_defs)

lemma sync_rows_all_bookmarked:
  assumes "STREAMS e (tap_stream_id stream) = Some meta" "meta ''bookmark'' = Some field"
  shows "\<forall>row \<in> set rows. truthy (retrieve_bookmark_with_path e (replication_key stream) row) \<Longrightarrow>
         \<exists>w' new. sync_rows e stream rows w = Returned w' \<and> calls w' = calls w @ new \<and>
           records_written new = map (\<lambda>row. (tap_stream_id stream, row)) rows \<and>
           bookmarks_written new =
             map (\<lambda>row. (tap_stream_id stream, field,
                    retrieve_bookmark_with_path e (replication_key stream) row)) rows"
proof (induction rows arbitrary: w)
  case Nil
  then show ?case by simp
next
  case (Cons row rows)
  let ?w1 = "after_bookmarked_row e stream field row w"
  from Cons.prems have t: "truthy (retrieve_bookmark_with_path e (replication_key stream) row)"
    and rest: "\<forall>row \<in> set rows. truthy (retrieve_bookmark_with_path e (replication_key stream) row)"
    by simp_all
  from Cons.IH [OF rest, of ?w1] obtain w' new
    where run: "sync_rows e stream rows ?w1 = Returned w'"
      and new: "calls w' = calls ?w1 @ new"
      and recs: "records_written new = map (\<lambda>row. (tap_stream_id stream, row)) rows"
      and bms: "bookmarks_written new =
             map (\<lambda>row. (tap_stream_id stream, field,
                    retrieve_bookmark_with_path e (replication_key stream) row)) rows"
    by blast
  let ?first = "[NextRow (tap_stream_id stream) row,
        WriteRecord (tap_stream_id stream) row (utcnow e (clock_reads w)),
        WriteBookmark (tap_stream_id stream) field
          (retrieve_bookmark_with_path e (replication_key stream) row),
        ClearCurrentlySyncing,
        WriteState (state ?w1)]"
  have "sync_rows e stream (row # rows) w = Returned w'"
    using sync_rows_bookmarked_step [OF t assms] run by simp
  moreover have "calls w' = calls w @ (?first @ new)"
    using new by (simp add: calls_after_bookmarked_row)
  moreover have "records_written (?first @ new) = map (\<lambda>row. (tap_stream_id stream, row)) (row # rows)"
    by (simp add: recs)
  moreover have "bookmarks_written (?first @ new) =
             map (\<lambda>row. (tap_stream_id stream, field,
                    retrieve_bookmark_with_path e (replication_key stream) row)) (row # rows)"
    by (simp add: bms)
  ultimately show ?case by blast
qed

lemma sync_rows_last_bookmark:
  assumes "STREAMS e (tap_stream_id stream) = Some meta" "meta ''bookmark'' = Some field"
  shows "\<forall>row \<in> set rows. truthy (retrieve_bookmark_with_path e (replication_key stream) row) \<Longrightarrow>
         rows \<noteq> [] \<Longrightarrow>
         get_bookmark (state (world_of (sync_rows e stream rows w))) (tap_stream_id stream) field
           = Some (retrieve_bookmark_with_path e (replication_key stream) (last rows))"
proof (induction rows arbitrary: w)
  case Nil
  then show ?case by simp
next
  case (Cons row rows)
  from Cons.prems have t: "truthy (retrieve_bookmark_with_path e (replication_key stream) row)"
    and rest: "\<forall>row \<in> set rows. truthy (retrieve_bookmark_with_path e (replication_key stream) row)"
    by simp_all
  note step = sync_rows_bookmarked_step [OF t assms]
  show ?case
  proof (cases "rows = []")
    case True
    have "sync_rows e stream (row # rows) w = Returned (after_bookmarked_row e stream field row w)"
      by (simp only: step True sync_rows.simps(1))
    then show ?thesis
      using True
      by (simp add: state_after_bookmarked_row get_bookmark_clear get_bookmark_write_bookmark
          del: sync_rows.simps)
  next
    case False
    with Cons.IH [OF rest, of "after_bookmarked_row e stream field row w"] show ?thesis
      by (simp add: step del: sync_rows.simps)
  qed
qed

text \<open>
  Claim C4. Rows that each yield a bookmark, for a stream whose bookmark field the
  registry names, handled in order by the loop of \<^verbatim>\<open>sync\<close>: the loop returns, the
  calls of \<^verbatim>\<open>write_record\<close> are one per row in the order of the rows, so are the calls
  of \<^verbatim>\<open>write_bookmark\<close>, each with the bookmark of its row, and when there is a row at
  all the bookmark left in the state is the one of the last row.
\<close>

theorem bookmarks_last_write_wins:
  assumes "\<forall>row \<in> set rows. truthy (retrieve_bookmark_with_path e (replication_key stream) row)"
      and "STREAMS e (tap_stream_id stream) = Some meta" "meta ''bookmark'' = Some field"
  shows "returned (sync_rows e stream rows w) \<and>
         records_written (new_calls w (world_of (sync_rows e stream rows w)))
           = map (\<lambda>row. (tap_stream_id stream, row)) rows \<and>
         bookmarks_written (new_calls w (world_of (sync_rows e stream rows w)))
           = map (\<lambda>row. (tap_stream_id stream, field,
                    retrieve_bookmark_with_path e (replication_key stream) row)) rows \<and>
         (rows \<noteq> [] \<longrightarrow>
            get_bookmark (state (world_of (sync_rows e stream rows w))) (tap_stream_id stream) field
              = Some (retrieve_bookmark_with_path e (replication_key stream) (last rows)))"
proof -
  from sync_rows_all_bookmarked [OF assms(2,3) assms(1), of w] obtain w' new
    where run: "sync_rows e stream rows w = Returned w'"
      and new: "calls w' = calls w @ new"
      and recs: "records_written new = map (\<lambda>row. (tap_stream_id stream, row)) rows"
      and bms: "bookmarks_written new =
             map (\<lambda>row. (tap_stream_id stream, field,
                    retrieve_bookmark_with_path e (replication_key stream) row)) rows"
    by blast
  have "new_calls w w' = new"
    using new by (rule new_calls_append)
  then show ?thesis
    using run recs bms sync_rows_last_bookmark [OF assms(2,3) assms(1), of w]
    by simp
qed

lemma scenario_rows_truthy:
  "\<forall>row \<in> set [scenario_row1, scenario_row2].
     truthy (retrieve_bookmark_with_path scenario_env (replication_key scenario_stream) row)"
  by (simp add: scenario_bookmark1 scenario_bookmark2)

theorem bookmarks_last_write_wins_witness:
  "truthy (retrieve_bookmark_with_path scenario_env (replication_key scenario_stream) scenario_row1) \<and>
   truthy (retrieve_bookmark_with_path scenario_env (replication_key scenario_stream) scenario_row2) \<and>
   STREAMS scenario_env (tap_stream_id scenario_stream) = Some [''bookmark'' \<mapsto> ''date_modified''] \<and>
   returned (sync_rows scenario_env scenario_stream [scenario_row1, scenario_row2] scenario_world) \<and>
   records_written (new_calls scenario_world
       (world_of (sync_rows scenario_env scenario_stream [scenario_row1, scenario_row2] scenario_world)))
     = [(''paypal_transactions'', scenario_row1), (''paypal_transactions'', scenario_row2)] \<and>
   bookmarks_written (new_calls scenario_world
       (world_of (sync_rows scenario_env scenario_stream [scenario_row1, scenario_row2] scenario_world)))
     = [(''paypal_transactions'', ''date_modified'', PStr ''2020-01-02T00:00:00Z''),
        (''paypal_transactions'', ''date_modified'', PStr ''2020-01-03T00:00:00Z'')] \<and>
   get_bookmark
       (state (world_of (sync_rows scenario_env scenario_stream [scenario_row1, scenario_row2] scenario_world)))
       ''paypal_transactions'' ''date_modified''
     = Some (PStr ''2020-01-03T00:00:00Z'')"
proof -
  have f: "[''bookmark'' \<mapsto> ''date_modified''] ''bookmark'' = Some ''date_modified''"
    by simp
  have sid: "tap_stream_id scenario_stream = ''paypal_transactions''"
    by (simp add: scenario_stream_def)
  from bookmarks_last_write_wins [OF scenario_rows_truthy scenario_registry f, of scenario_world]
  show ?thesis
    using scenario_rows_truthy scenario_registry
    by (simp add: scenario_bookmark1 scenario_bookmark2 sid)
qed

section \<open>The marker in the loop over the rows\<close>




section \<open>The selected streams of the scenarios\<close>

lemma scenario_streams_selected:
  "selected scenario_stream" "selected unregistered_stream" "selected balances_stream"
  "\<not> selected skipped_stream"
  by (simp_all add: scenario_stream_def unregistered_stream_def balances_stream_def
      skipped_stream_def)

lemma scenario_stream_ids:
  "tap_stream_id scenario_stream = ''paypal_transactions''"
  "tap_stream_id unregistered_stream = ''paypal_refunds''"
  "tap_stream_id balances_stream = ''paypal_balances''"
  "tap_stream_id skipped_stream = ''paypal_disputes''"
  by (simp_all add: scenario_stream_def unregistered_stream_def balances_stream_def
      skipped_stream_def)

lemma selected_two_stream_catalog:
  "get_selected_streams two_stream_catalog (state scenario_world)
     = [unregistered_stream, scenario_stream]"
  by (simp add: get_selected_streams_def shuffle_streams_def two_stream_catalog_def
      scenario_world_def empty_state_def scenario_streams_selected)

lemma selected_resume_catalog:
  "get_selected_streams resume_catalog (state scenario_world) = [scenario_stream, balances_stream]"
  "get_selected_streams resume_catalog (state resume_world) = [balances_stream, scenario_stream]"
  by (simp_all add: get_selected_streams_def shuffle_streams_def resume_catalog_def
      scenario_world_def empty_state_def resume_world_def matching_index_def
      scenario_streams_selected scenario_stream_ids)

section \<open>The loop over the streams\<close>

lemma sync_streams_append:
  "sync_streams e paypal start_date catchup_days schemaless (streams1 @ streams2) w =
     (case sync_streams e paypal start_date catchup_days schemaless streams1 w of
        Raised err w' \<Rightarrow> Raised err w'
      | Returned w' \<Rightarrow> sync_streams e paypal start_date catchup_days schemaless streams2 w')"
  by (induction streams1 arbitrary: w) (simp_all split: outcome.splits)

lemma sync_stream_unregistered:
  "paypal (tap_stream_id stream) = None \<Longrightarrow>
   sync_stream e paypal start_date catchup_days schemaless stream w =
     Raised (AttributeError (tap_stream_id stream))
       (singer_write_schema (tap_stream_id stream) (schema stream) (key_properties stream)
          (singer_set_currently_syncing (tap_stream_id stream) w))"
  by (simp add: sync_stream_def)

lemma sync_stream_registered:
  "paypal (tap_stream_id stream) = Some tap_data \<Longrightarrow>
   sync_stream e paypal start_date catchup_days schemaless stream w =
     sync_rows e stream
       (tap_data catchup_days schemaless
          (get_stream_state e (set_currently_syncing (state w) (tap_stream_id stream))
             start_date (tap_stream_id stream)))
       (log (Fetch (tap_stream_id stream) catchup_days schemaless
               (get_stream_state e (set_currently_syncing (state w) (tap_stream_id stream))
                  start_date (tap_stream_id stream)))
          (singer_write_schema (tap_stream_id stream) (schema stream) (key_properties stream)
             (singer_set_currently_syncing (tap_stream_id stream) w)))"
  by (simp add: sync_stream_def Let_def call_defs)

text \<open>
  Claim C9. When the client has no fetch method for a selected stream, the pass
  over that stream raises \<^verbatim>\<open>AttributeError\<close> only after two effects: the marker of
  the state names the stream, and the calls made are \<^verbatim>\<open>set_currently_syncing\<close> and
  \<^verbatim>\<open>write_schema\<close> for it, and nothing else: no fetch, no row, no record. The
  bookmarks are untouched, and the driver stops there whatever streams come later.
\<close>

theorem unregistered_stream_marked_and_schema_written:
  assumes "paypal (tap_stream_id stream) = None"
  shows "sync_stream e paypal start_date catchup_days schemaless stream w
           = Raised (AttributeError (tap_stream_id stream))
               (w\<lparr>state := (state w)\<lparr>currently_syncing := Some (tap_stream_id stream)\<rparr>,
                   calls := calls w @
                     [SetCurrentlySyncing (tap_stream_id stream),
                      WriteSchema (tap_stream_id stream) (schema stream) (key_properties stream)]\<rparr>) \<and>
         sync_streams e paypal start_date catchup_days schemaless (stream # later) w
           = sync_stream e paypal start_date catchup_days schemaless stream w"
  using assms by (simp add: sync_stream_def call_defs set_currently_syncing_def)

theorem unregistered_stream_marked_and_schema_written_witness:
  "scenario_paypal (tap_stream_id unregistered_stream) = None \<and>
   sync_streams scenario_env scenario_paypal ''2020-01-01T00:00:00Z'' 3 False
       [unregistered_stream, scenario_stream] scenario_world
     = Raised (AttributeError ''paypal_refunds'')
         (scenario_world
            \<lparr>state := empty_state\<lparr>currently_syncing := Some ''paypal_refunds''\<rparr>,
             calls := [SetCurrentlySyncing ''paypal_refunds'',
                       WriteSchema ''paypal_refunds'' (PDict []) [''id'']]\<rparr>)"
proof -
  have n: "scenario_paypal (tap_stream_id unregistered_stream) = None"
    by (simp add: scenario_paypal_def unregistered_stream_def)
  have "tap_stream_id unregistered_stream = ''paypal_refunds''"
       "schema unregistered_stream = PDict []" "key_properties unregistered_stream = [''id'']"
    by (simp_all add: unregistered_stream_def)
  moreover have "state scenario_world = empty_state" "calls scenario_world = []"
    by (simp_all add: scenario_world_def)
  ultimately show ?thesis
    using n unregistered_stream_marked_and_schema_written
      [where paypal = scenario_paypal and stream = unregistered_stream and e = scenario_env
         and start_date = "''2020-01-01T00:00:00Z''" and catchup_days = 3 and schemaless = False
         and w = scenario_world and later = "[scenario_stream]", OF n]
    by simp
qed

text \<open>
  Claim C5. A selected stream without a fetch method on the client makes \<^verbatim>\<open>sync\<close>
  raise: it never returns. Either an earlier stream has already raised, or the
  streams before it have returned and \<^verbatim>\<open>sync\<close> raises \<^verbatim>\<open>AttributeError\<close> for this
  stream, having made for it the calls \<^verbatim>\<open>set_currently_syncing\<close> and \<^verbatim>\<open>write_schema\<close>
  only. The outcome is the one of the run over the streams up to this one: the later
  streams play no part in it.
\<close>

theorem sync_aborts_on_unregistered_stream:
  assumes "get_selected_streams catalog (state w) = before @ stream # later"
      and "paypal (tap_stream_id stream) = None"
  shows "\<not> returned (sync e paypal catalog start_date catchup_days schemaless w) \<and>
         sync e paypal catalog start_date catchup_days schemaless w
           = sync_streams e paypal start_date catchup_days schemaless (before @ [stream]) w \<and>
         sync e paypal catalog start_date catchup_days schemaless w
           = (case sync_streams e paypal start_date catchup_days schemaless before w of
                Raised err w' \<Rightarrow> Raised err w'
              | Returned w' \<Rightarrow>
                  Raised (AttributeError (tap_stream_id stream))
                    (w'\<lparr>state := (state w')\<lparr>currently_syncing := Some (tap_stream_id stream)\<rparr>,
                        calls := calls w' @
                          [SetCurrentlySyncing (tap_stream_id stream),
                           WriteSchema (tap_stream_id stream) (schema stream)
                             (key_properties stream)]\<rparr>))"
  using assms
  by (simp add: sync_def sync_streams_append sync_stream_def call_defs set_currently_syncing_def
      split: outcome.splits)

theorem sync_aborts_on_unregistered_stream_witness:
  "get_selected_streams two_stream_catalog (state scenario_world)
     = [] @ unregistered_stream # [scenario_stream] \<and>
   scenario_paypal (tap_stream_id unregistered_stream) = None \<and>
   sync scenario_env scenario_paypal two_stream_catalog ''2020-01-01T00:00:00Z'' 3 False scenario_world
     = Raised (AttributeError ''paypal_refunds'')
         (scenario_world
            \<lparr>state := empty_state\<lparr>currently_syncing := Some ''paypal_refunds''\<rparr>,
             calls := [SetCurrentlySyncing ''paypal_refunds'',
                       WriteSchema ''paypal_refunds'' (PDict []) [''id'']]\<rparr>)"
proof -
  have c: "get_selected_streams two_stream_catalog (state scenario_world)
             = [] @ unregistered_stream # [scenario_stream]"
    by (simp add: selected_two_stream_catalog)
  have n: "scenario_paypal (tap_stream_id unregistered_stream) = None"
    by (simp add: scenario_paypal_def unregistered_stream_def)
  have "tap_stream_id unregistered_stream = ''paypal_refunds''"
       "schema unregistered_stream = PDict []" "key_properties unregistered_stream = [''id'']"
    by (simp_all add: unregistered_stream_def)
  moreover have "state scenario_world = empty_state" "calls scenario_world = []"
    by (simp_all add: scenario_world_def)
  moreover from sync_aborts_on_unregistered_stream
      [where catalog = two_stream_catalog and w = scenario_world and before = "[]"
         and stream = unregistered_stream and later = "[scenario_stream]"
         and paypal = scenario_paypal and e = scenario_env
         and start_date = "''2020-01-01T00:00:00Z''" and catchup_days = 3 and schemaless = False,
       OF c n]
  have "sync scenario_env scenario_paypal two_stream_catalog ''2020-01-01T00:00:00Z'' 3 False scenario_world
           = (case sync_streams scenario_env scenario_paypal ''2020-01-01T00:00:00Z'' 3 False [] scenario_world of
                Raised err w' \<Rightarrow> Raised err w'
              | Returned w' \<Rightarrow>
                  Raised (AttributeError (tap_stream_id unregistered_stream))
                    (w'\<lparr>state := (state w')\<lparr>currently_syncing := Some (tap_stream_id unregistered_stream)\<rparr>,
                        calls := calls w' @
                          [SetCurrentlySyncing (tap_stream_id unregistered_stream),
                           WriteSchema (tap_stream_id unregistered_stream) (schema unregistered_stream)
                             (key_properties unregistered_stream)]\<rparr>))"
    by (elim conjE)
  ultimately show ?thesis
    using c n by simp
qed

section \<open>The shape of the call log\<close>

lemma streams_marked_append:
  "streams_marked (xs @ ys) = streams_marked xs @ streams_marked ys"
  by (induction xs rule: streams_marked.induct) simp_all

lemma schemas_written_append:
  "schemas_written (xs @ ys) = schemas_written xs @ schemas_written ys"
  by (induction xs rule: schemas_written.induct) simp_all

lemma records_follow_schema_append:
  "records_follow_schema seen (xs @ ys) =
     (records_follow_schema seen xs \<and>
      records_follow_schema (seen \<union> set (schemas_written xs)) ys)"
  by (induction seen xs rule: records_follow_schema.induct) auto

lemma records_follow_schema_no_schema:
  "schemas_written evs = [] \<Longrightarrow>
   records_follow_schema seen evs = (fst ` set (records_written evs) \<subseteq> seen)"
  by (induction seen evs rule: records_follow_schema.induct) auto

lemma records_follow_schema_sound:
  "records_follow_schema seen evs \<Longrightarrow> evs = pre @ WriteRecord sid row t # post \<Longrightarrow>
   sid \<in> seen \<union> set (schemas_written pre)"
  by (simp add: records_follow_schema_append)

lemma sync_record_trace:
  "\<exists>new. calls (world_of (sync_record e stream row w)) = calls w @ new \<and>
         streams_marked new = [] \<and> schemas_written new = [] \<and>
         records_written new = [(tap_stream_id stream, row)]"
  by (cases e stream row w rule: sync_record_cases) (simp_all add: call_defs)

lemma sync_rows_trace:
  "\<exists>new. calls (world_of (sync_rows e stream rows w)) = calls w @ new \<and>
         streams_marked new = [] \<and> schemas_written new = [] \<and>
         fst ` set (records_written new) \<subseteq> {tap_stream_id stream} \<and>
         (returned (sync_rows e stream rows w) \<longrightarrow>
            records_written new = map (Pair (tap_stream_id stream)) rows)"
proof (induction rows arbitrary: w)
  case Nil
  then show ?case by simp
next
  case (Cons row rows)
  let ?w0 = "log (NextRow (tap_stream_id stream) row) w"
  from sync_record_trace [of e stream row ?w0] obtain n1
    where n1: "calls (world_of (sync_record e stream row ?w0)) = calls ?w0 @ n1"
      "streams_marked n1 = []" "schemas_written n1 = []"
      "records_written n1 = [(tap_stream_id stream, row)]"
    by blast
  have c0: "calls ?w0 = calls w @ [NextRow (tap_stream_id stream) row]"
    by (simp add: log_def)
  show ?case
  proof (cases "sync_record e stream row ?w0")
    case (Raised err w1)
    with n1 c0 have "calls (world_of (sync_rows e stream (row # rows) w))
        = calls w @ (NextRow (tap_stream_id stream) row # n1)"
      by simp
    moreover have "\<not> returned (sync_rows e stream (row # rows) w)"
      using Raised by simp
    ultimately show ?thesis
      using n1(2-4) by (intro exI [of _ "NextRow (tap_stream_id stream) row # n1"]) simp
  next
    case (Returned w1)
    from Cons.IH [of w1] obtain n2
      where n2: "calls (world_of (sync_rows e stream rows w1)) = calls w1 @ n2"
        "streams_marked n2 = []" "schemas_written n2 = []"
        "fst ` set (records_written n2) \<subseteq> {tap_stream_id stream}"
        "returned (sync_rows e stream rows w1) \<longrightarrow>
            records_written n2 = map (Pair (tap_stream_id stream)) rows"
      by blast
    have run: "sync_rows e stream (row # rows) w = sync_rows e stream rows w1"
      using Returned by simp
    have "calls (world_of (sync_rows e stream (row # rows) w))
        = calls w @ (NextRow (tap_stream_id stream) row # n1 @ n2)"
      using n1(1) n2(1) c0 Returned by simp
    then show ?thesis
      using n1(2-4) n2(2-5) run
      by (intro exI [of _ "NextRow (tap_stream_id stream) row # n1 @ n2"])
         (simp add: streams_marked_append schemas_written_append records_written_append
           del: sync_rows.simps)
  qed
qed

lemma sync_stream_trace:
  "\<exists>rest. calls (world_of (sync_stream e paypal start_date catchup_days schemaless stream w))
           = calls w @ SetCurrentlySyncing (tap_stream_id stream)
               # WriteSchema (tap_stream_id stream) (schema stream) (key_properties stream) # rest \<and>
          streams_marked rest = [] \<and> schemas_written rest = [] \<and>
          fst ` set (records_written rest) \<subseteq> {tap_stream_id stream}"
proof (cases "paypal (tap_stream_id stream)")
  case None
  then show ?thesis
    by (simp add: sync_stream_unregistered call_defs)
next
  case (Some tap_data)
  let ?kw = "get_stream_state e (set_currently_syncing (state w) (tap_stream_id stream))
               start_date (tap_stream_id stream)"
  let ?w3 = "log (Fetch (tap_stream_id stream) catchup_days schemaless ?kw)
          (singer_write_schema (tap_stream_id stream) (schema stream) (key_properties stream)
             (singer_set_currently_syncing (tap_stream_id stream) w))"
  from sync_rows_trace [of e stream "tap_data catchup_days schemaless ?kw" ?w3] obtain new
    where new: "calls (world_of (sync_rows e stream (tap_data catchup_days schemaless ?kw) ?w3))
                  = calls ?w3 @ new"
      "streams_marked new = []" "schemas_written new = []"
      "fst ` set (records_written new) \<subseteq> {tap_stream_id stream}"
    by blast
  have "calls ?w3 = calls w @ [SetCurrentlySyncing (tap_stream_id stream),
          WriteSchema (tap_stream_id stream) (schema stream) (key_properties stream),
          Fetch (tap_stream_id stream) catchup_days schemaless ?kw]"
    by (simp add: call_defs)
  with new(1) have "calls (world_of (sync_stream e paypal start_date catchup_days schemaless stream w))
      = calls w @ SetCurrentlySyncing (tap_stream_id stream)
          # WriteSchema (tap_stream_id stream) (schema stream) (key_properties stream)
          # (Fetch (tap_stream_id stream) catchup_days schemaless ?kw # new)"
    using Some by (simp add: sync_stream_registered)
  then show ?thesis
    using new(2-4)
    by (intro exI [of _ "Fetch (tap_stream_id stream) catchup_days schemaless ?kw # new"]) simp
qed

lemma sync_streams_trace:
  "\<exists>new n. calls (world_of (sync_streams e paypal start_date catchup_days schemaless streams w))
             = calls w @ new \<and>
           n \<le> length streams \<and>
           streams_marked new = map tap_stream_id (take n streams) \<and>
           schemas_written new = map tap_stream_id (take n streams) \<and>
           (returned (sync_streams e paypal start_date catchup_days schemaless streams w)
              \<longrightarrow> n = length streams) \<and>
           (\<forall>seen. records_follow_schema seen new)"
proof (induction streams arbitrary: w)
  case Nil
  then show ?case by simp
next
  case (Cons stream streams)
  let ?o1 = "sync_stream e paypal start_date catchup_days schemaless stream w"
  let ?first = "\<lambda>rest. SetCurrentlySyncing (tap_stream_id stream)
               # WriteSchema (tap_stream_id stream) (schema stream) (key_properties stream) # rest"
  from sync_stream_trace [of e paypal start_date catchup_days schemaless stream w] obtain rest
    where rest: "calls (world_of ?o1) = calls w @ ?first rest"
      "streams_marked rest = []" "schemas_written rest = []"
      "fst ` set (records_written rest) \<subseteq> {tap_stream_id stream}"
    by blast
  have follow: "records_follow_schema seen (?first rest)" for seen
    using rest(3,4) by (simp add: records_follow_schema_no_schema) blast
  show ?case
  proof (cases ?o1)
    case (Raised err w1)
    then have "calls (world_of (sync_streams e paypal start_date catchup_days schemaless
                 (stream # streams) w)) = calls w @ ?first rest"
      using rest(1) by simp
    moreover have "\<not> returned (sync_streams e paypal start_date catchup_days schemaless
                 (stream # streams) w)"
      using Raised by simp
    ultimately show ?thesis
      using rest(2,3) follow
      by (intro exI [of _ "?first rest"] exI [of _ "Suc 0"]) simp
  next
    case (Returned w1)
    from Cons.IH [of w1] obtain new n
      where new: "calls (world_of (sync_streams e paypal start_date catchup_days schemaless streams w1))
             = calls w1 @ new"
           "n \<le> length streams"
           "streams_marked new = map tap_stream_id (take n streams)"
           "schemas_written new = map tap_stream_id (take n streams)"
           "returned (sync_streams e paypal start_date catchup_days schemaless streams w1)
              \<longrightarrow> n = length streams"
           "\<forall>seen. records_follow_schema seen new"
      by blast
    have run: "sync_streams e paypal start_date catchup_days schemaless (stream # streams) w
                 = sync_streams e paypal start_date catchup_days schemaless streams w1"
      using Returned by simp
    have c: "calls (world_of (sync_streams e paypal start_date catchup_days schemaless
                 (stream # streams) w)) = calls w @ (?first rest @ new)"
      using rest(1) new(1) Returned by simp
    have "\<forall>seen. records_follow_schema seen (?first rest @ new)"
      using follow new(6) by (simp only: records_follow_schema_append) blast
    then show ?thesis
      using c run rest(2,3) new(2-5)
      by (intro exI [of _ "?first rest @ new"] exI [of _ "Suc n"])
         (simp add: streams_marked_append schemas_written_append del: sync_streams.simps)
  qed
qed

section \<open>Two runs over the catalog of three streams\<close>

lemma resume_bookmarks:
  "retrieve_bookmark_with_path resume_env (replication_key scenario_stream) scenario_row1
     = PStr ''2020-01-02T00:00:00Z''"
  "retrieve_bookmark_with_path resume_env (replication_key scenario_stream) scenario_row2
     = PStr ''2020-01-03T00:00:00Z''"
  "retrieve_bookmark_with_path resume_env (replication_key balances_stream) balance_row = PNone"
  by (simp_all add: resume_env_def scenario_stream_def balances_stream_def scenario_row1_def
      scenario_row2_def balance_row_def retrieve_bookmark_with_path_spec_def)

lemma resume_facts:
  "schema scenario_stream = PDict [(''type'', PStr ''object'')]"
  "key_properties scenario_stream = [''id'']"
  "schema balances_stream = PDict []"
  "key_properties balances_stream = [''currency'']"
  "get_stream_state resume_env = get_stream_state_spec"
  "utcnow resume_env = (\<lambda>k. 1000 + k)"
  "STREAMS resume_env ''paypal_transactions'' = Some [''bookmark'' \<mapsto> ''date_modified'']"
  "resume_paypal ''paypal_transactions''
     = Some (\<lambda>catchup_days schemaless kwargs. [scenario_row1, scenario_row2])"
  "resume_paypal ''paypal_balances'' = Some (\<lambda>catchup_days schemaless kwargs. [balance_row])"
  by (simp_all add: scenario_stream_def balances_stream_def resume_env_def resume_paypal_def)

lemma resume_sync_run:
  "sync resume_env resume_paypal resume_catalog ''2020-01-01T00:00:00Z'' 3 False scenario_world
     = Returned
         \<lparr>state = \<lparr>bookmarks = [(''paypal_transactions'',
                       [(''date_modified'', PStr ''2020-01-03T00:00:00Z'')])],
                   currently_syncing = Some ''paypal_balances''\<rparr>,
          calls =
            [SetCurrentlySyncing ''paypal_transactions'',
             WriteSchema ''paypal_transactions'' (PDict [(''type'', PStr ''object'')]) [''id''],
             Fetch ''paypal_transactions'' 3 False [(''start_date'', PStr ''2020-01-01T00:00:00Z'')],
             NextRow ''paypal_transactions'' scenario_row1,
             WriteRecord ''paypal_transactions'' scenario_row1 1000,
             WriteBookmark ''paypal_transactions'' ''date_modified'' (PStr ''2020-01-02T00:00:00Z''),
             ClearCurrentlySyncing,
             WriteState \<lparr>bookmarks = [(''paypal_transactions'',
                            [(''date_modified'', PStr ''2020-01-02T00:00:00Z'')])],
                        currently_syncing = None\<rparr>,
             NextRow ''paypal_transactions'' scenario_row2,
             WriteRecord ''paypal_transactions'' scenario_row2 1001,
             WriteBookmark ''paypal_transactions'' ''date_modified'' (PStr ''2020-01-03T00:00:00Z''),
             ClearCurrentlySyncing,
             WriteState \<lparr>bookmarks = [(''paypal_transactions'',
                            [(''date_modified'', PStr ''2020-01-03T00:00:00Z'')])],
                        currently_syncing = None\<rparr>,
             SetCurrentlySyncing ''paypal_balances'',
             WriteSchema ''paypal_balances'' (PDict []) [''currency''],
             Fetch ''paypal_balances'' 3 False [(''start_date'', PStr ''2020-01-01T00:00:00Z'')],
             NextRow ''paypal_balances'' balance_row,
             WriteRecord ''paypal_balances'' balance_row 1002],
          clock_reads = 3\<rparr>"
  unfolding sync_def selected_resume_catalog
  by (simp add: sync_stream_def sync_record_def Let_def scenario_stream_ids resume_facts
      resume_bookmarks call_defs scenario_world_def empty_state_def get_stream_state_spec_def
      set_currently_syncing_def write_bookmark_def clear_currently_syncing_def)

lemma resume_sync_run_marked:
  "sync resume_env resume_paypal resume_catalog ''2020-01-01T00:00:00Z'' 3 False resume_world
     = Returned
         \<lparr>state = \<lparr>bookmarks = [(''paypal_transactions'',
                       [(''date_modified'', PStr ''2020-01-03T00:00:00Z'')])],
                   currently_syncing = None\<rparr>,
          calls =
            [SetCurrentlySyncing ''paypal_balances'',
             WriteSchema ''paypal_balances'' (PDict []) [''currency''],
             Fetch ''paypal_balances'' 3 False [(''start_date'', PStr ''2020-01-01T00:00:00Z'')],
             NextRow ''paypal_balances'' balance_row,
             WriteRecord ''paypal_balances'' balance_row 1000,
             SetCurrentlySyncing ''paypal_transactions'',
             WriteSchema ''paypal_transactions'' (PDict [(''type'', PStr ''object'')]) [''id''],
             Fetch ''paypal_transactions'' 3 False [(''start_date'', PStr ''2020-01-01T00:00:00Z'')],
             NextRow ''paypal_transactions'' scenario_row1,
             WriteRecord ''paypal_transactions'' scenario_row1 1001,
             WriteBookmark ''paypal_transactions'' ''date_modified'' (PStr ''2020-01-02T00:00:00Z''),
             ClearCurrentlySyncing,
             WriteState \<lparr>bookmarks = [(''paypal_transactions'',
                            [(''date_modified'', PStr ''2020-01-02T00:00:00Z'')])],
                        currently_syncing = None\<rparr>,
             NextRow ''paypal_transactions'' scenario_row2,
             WriteRecord ''paypal_transactions'' scenario_row2 1002,
             WriteBookmark ''paypal_transactions'' ''date_modified'' (PStr ''2020-01-03T00:00:00Z''),
             ClearCurrentlySyncing,
             WriteState \<lparr>bookmarks = [(''paypal_transactions'',
                            [(''date_modified'', PStr ''2020-01-03T00:00:00Z'')])],
                        currently_syncing = None\<rparr>],
          clock_reads = 3\<rparr>"
  unfolding sync_def selected_resume_catalog
  by (simp add: sync_stream_def sync_record_def Let_def scenario_stream_ids resume_facts
      resume_bookmarks call_defs resume_world_def get_stream_state_spec_def
      set_currently_syncing_def write_bookmark_def clear_currently_syncing_def)

section \<open>The marker over a run\<close>













section \<open>The order of the selected streams\<close>

lemma first_match_Some:
  "first_match sid entries = Some i \<Longrightarrow>
   i < length entries \<and> tap_stream_id (entries ! i) = sid"
proof (induction entries arbitrary: i)
  case Nil
  then show ?case by simp
next
  case (Cons entry entries)
  show ?case
  proof (cases "tap_stream_id entry = sid")
    case True
    with Cons.prems show ?thesis by simp
  next
    case False
    with Cons.prems obtain j where j: "first_match sid entries = Some j" "i = Suc j"
      by auto
    with Cons.IH [of j] show ?thesis by simp
  qed
qed

lemma first_match_None:
  "first_match sid entries = None \<Longrightarrow> sid \<notin> tap_stream_id ` set entries"
  by (induction entries) (auto split: if_splits)

lemma matching_index_marked:
  assumes "sid \<in> tap_stream_id ` set entries"
  shows "matching_index sid entries < length entries"
    and "tap_stream_id (entries ! matching_index sid entries) = sid"
proof -
  from assms first_match_None [of sid entries] obtain i where i: "first_match sid entries = Some i"
    by (cases "first_match sid entries") auto
  with first_match_Some [OF i] show "matching_index sid entries < length entries"
    and "tap_stream_id (entries ! matching_index sid entries) = sid"
    by (simp_all add: matching_index_def)
qed

lemma matching_index_le: "matching_index sid entries \<le> length entries"
proof (cases "first_match sid entries")
  case None
  then show ?thesis by (simp add: matching_index_def)
next
  case (Some i)
  with first_match_Some [OF Some] show ?thesis by (simp add: matching_index_def)
qed

lemma shuffle_streams_rotate:
  "currently_syncing st = Some sid \<Longrightarrow>
   shuffle_streams catalog st
     = rotate (matching_index sid (catalog_streams catalog)) (catalog_streams catalog)"
proof -
  assume m: "currently_syncing st = Some sid"
  let ?cs = "catalog_streams catalog"
  let ?i = "matching_index sid ?cs"
  show ?thesis
  proof (cases "?i < length ?cs")
    case True
    then show ?thesis
      using m by (simp add: shuffle_streams_def rotate_drop_take)
  next
    case False
    with matching_index_le [of sid ?cs] have "?i = length ?cs" by simp
    then show ?thesis
      using m by (simp add: shuffle_streams_def)
  qed
qed

lemma shuffle_streams_marked_first:
  assumes "currently_syncing st = Some sid" "sid \<in> tap_stream_id ` set (catalog_streams catalog)"
  shows "tap_stream_id (hd (shuffle_streams catalog st)) = sid"
proof -
  let ?cs = "catalog_streams catalog"
  note i = matching_index_marked [OF assms(2)]
  from i(1) have "hd (drop (matching_index sid ?cs) ?cs @ take (matching_index sid ?cs) ?cs)
      = ?cs ! matching_index sid ?cs"
    by (simp add: hd_drop_conv_nth)
  with i(2) assms(1) show ?thesis
    by (simp add: shuffle_streams_def)
qed

text \<open>
  Claim C7, as stated, fails on the order: the driver takes the streams as
  \<^verbatim>\<open>get_selected_streams\<close> yields them, and with a marker in the state it receives that
  is not catalog order. With the catalog that lists \<^verbatim>\<open>paypal_transactions\<close> before
  \<^verbatim>\<open>paypal_balances\<close> and a state whose marker names \<^verbatim>\<open>paypal_balances\<close>, the
  driver processes \<^verbatim>\<open>paypal_balances\<close> first.
\<close>

theorem catalog_order_counterexample:
  "returned (sync resume_env resume_paypal resume_catalog ''2020-01-01T00:00:00Z'' 3 False
               resume_world) \<and>
   map tap_stream_id (filter selected (catalog_streams resume_catalog))
     = [''paypal_transactions'', ''paypal_balances''] \<and>
   streams_marked (new_calls resume_world
       (world_of (sync resume_env resume_paypal resume_catalog ''2020-01-01T00:00:00Z'' 3 False
                    resume_world)))
     = [''paypal_balances'', ''paypal_transactions'']"
proof -
  have "calls resume_world = []" by (simp add: resume_world_def)
  then have "returned (sync resume_env resume_paypal resume_catalog ''2020-01-01T00:00:00Z'' 3 False
               resume_world)"
    and "streams_marked (new_calls resume_world
       (world_of (sync resume_env resume_paypal resume_catalog ''2020-01-01T00:00:00Z'' 3 False
                    resume_world)))
     = [''paypal_balances'', ''paypal_transactions'']"
    by (simp_all add: resume_sync_run_marked new_calls_def)
  moreover have "map tap_stream_id (filter selected (catalog_streams resume_catalog))
     = [''paypal_transactions'', ''paypal_balances'']"
    by (simp add: resume_catalog_def scenario_streams_selected scenario_stream_ids)
  ultimately show ?thesis by (intro conjI)
qed

text \<open>
  Claim C7, amended. The driver takes the selected streams in the order
  \<^verbatim>\<open>get_selected_streams\<close> yields them for the state \<^verbatim>\<open>sync\<close> received: catalog order
  when that state has no marker or the marker names no entry of the catalog, and
  otherwise the catalog rotated so that it begins at the first entry the marker
  names. It takes them one after the other: a later stream starts from the world the
  earlier ones have left, and only when they returned; in a run that returns, the
  streams marked and the schemas written are the selected streams in that order. For
  a stream the client has a method for, the pass sets the marker, resolves the stream
  state from the state so marked (with the helper as the spec describes it: the
  bookmarks of the stream when the state has them, else the start date), writes the
  schema, and calls the method with \<^verbatim>\<open>catchup_days\<close>, \<^verbatim>\<open>schemaless\<close> and the resolved
  state as keywords; the rows it yields are handled in fetch order, each one written
  right after it is pulled and before the next one is pulled.
\<close>

theorem sync_driver_order:
  "(currently_syncing (state w) = None \<longrightarrow>
      get_selected_streams catalog (state w) = filter selected (catalog_streams catalog)) \<and>
   (currently_syncing (state w) = Some marked \<longrightarrow>
      get_selected_streams catalog (state w)
        = filter selected
            (rotate (matching_index marked (catalog_streams catalog)) (catalog_streams catalog)) \<and>
      (marked \<in> tap_stream_id ` set (catalog_streams catalog) \<longrightarrow>
         tap_stream_id
           (hd (rotate (matching_index marked (catalog_streams catalog)) (catalog_streams catalog)))
           = marked) \<and>
      (marked \<notin> tap_stream_id ` set (catalog_streams catalog) \<longrightarrow>
         get_selected_streams catalog (state w) = filter selected (catalog_streams catalog))) \<and>
   (get_stream_state e = get_stream_state_spec \<longrightarrow>
      get_stream_state e (set_currently_syncing (state w) (tap_stream_id stream))
          start_date (tap_stream_id stream)
        = (case map_of (bookmarks (state w)) (tap_stream_id stream) of
             None \<Rightarrow> [(''start_date'', PStr start_date)]
           | Some m \<Rightarrow> m)) \<and>
   (get_selected_streams catalog (state w) = before @ later \<longrightarrow>
      sync e paypal catalog start_date catchup_days schemaless w
        = (case sync_streams e paypal start_date catchup_days schemaless before w of
             Raised err w' \<Rightarrow> Raised err w'
           | Returned w' \<Rightarrow> sync_streams e paypal start_date catchup_days schemaless later w')) \<and>
   (returned (sync e paypal catalog start_date catchup_days schemaless w) \<longrightarrow>
      streams_marked
          (new_calls w (world_of (sync e paypal catalog start_date catchup_days schemaless w)))
        = map tap_stream_id (get_selected_streams catalog (state w)) \<and>
      schemas_written
          (new_calls w (world_of (sync e paypal catalog start_date catchup_days schemaless w)))
        = map tap_stream_id (get_selected_streams catalog (state w))) \<and>
   (paypal (tap_stream_id stream) = Some tap_data \<longrightarrow>
      sync_stream e paypal start_date catchup_days schemaless stream w
        = sync_rows e stream
            (tap_data catchup_days schemaless
               (get_stream_state e (set_currently_syncing (state w) (tap_stream_id stream))
                  start_date (tap_stream_id stream)))
            (w\<lparr>state := set_currently_syncing (state w) (tap_stream_id stream),
                calls := calls w @
                  [SetCurrentlySyncing (tap_stream_id stream),
                   WriteSchema (tap_stream_id stream) (schema stream) (key_properties stream),
                   Fetch (tap_stream_id stream) catchup_days schemaless
                     (get_stream_state e (set_currently_syncing (state w) (tap_stream_id stream))
                        start_date (tap_stream_id stream))]\<rparr>)) \<and>
   sync_rows e stream (rows_a @ rows_b) w
     = (case sync_rows e stream rows_a w of
          Raised err w' \<Rightarrow> Raised err w'
        | Returned w' \<Rightarrow> sync_rows e stream rows_b w') \<and>
   take (length (calls w) + 2) (calls (world_of (sync_rows e stream (row # rows) w)))
     = calls w @ [NextRow (tap_stream_id stream) row,
                  WriteRecord (tap_stream_id stream) row (utcnow e (clock_reads w))] \<and>
   (returned (sync_rows e stream rows w) \<longrightarrow>
      records_written (new_calls w (world_of (sync_rows e stream rows w)))
        = map (Pair (tap_stream_id stream)) rows)"
proof -
  let ?cs = "catalog_streams catalog"
  have o1: "get_selected_streams catalog (state w) = filter selected ?cs"
    if "currently_syncing (state w) = None"
    using that by (simp add: get_selected_streams_def shuffle_streams_def)
  have o2: "get_selected_streams catalog (state w)
        = filter selected (rotate (matching_index marked ?cs) ?cs) \<and>
      (marked \<in> tap_stream_id ` set ?cs \<longrightarrow>
         tap_stream_id (hd (rotate (matching_index marked ?cs) ?cs)) = marked) \<and>
      (marked \<notin> tap_stream_id ` set ?cs \<longrightarrow>
         get_selected_streams catalog (state w) = filter selected ?cs)"
    if m: "currently_syncing (state w) = Some marked"
  proof -
    note rot = shuffle_streams_rotate [OF m, of catalog]
    have "tap_stream_id (hd (rotate (matching_index marked ?cs) ?cs)) = marked"
      if "marked \<in> tap_stream_id ` set ?cs"
      using shuffle_streams_marked_first [OF m that] rot by simp
    moreover have "get_selected_streams catalog (state w) = filter selected ?cs"
      if "marked \<notin> tap_stream_id ` set ?cs"
    proof -
      from that first_match_Some [of marked ?cs] have "first_match marked ?cs = None"
        by (cases "first_match marked ?cs") force+
      then show ?thesis
        using m by (simp add: get_selected_streams_def shuffle_streams_def matching_index_def)
    qed
    ultimately show ?thesis
      using rot by (simp add: get_selected_streams_def)
  qed
  have o3: "get_stream_state e (set_currently_syncing (state w) (tap_stream_id stream))
          start_date (tap_stream_id stream)
        = (case map_of (bookmarks (state w)) (tap_stream_id stream) of
             None \<Rightarrow> [(''start_date'', PStr start_date)]
           | Some m \<Rightarrow> m)"
    if "get_stream_state e = get_stream_state_spec"
    using that by (simp add: get_stream_state_spec_def set_currently_syncing_def)
  have a: "sync e paypal catalog start_date catchup_days schemaless w
        = (case sync_streams e paypal start_date catchup_days schemaless before w of
             Raised err w' \<Rightarrow> Raised err w'
           | Returned w' \<Rightarrow> sync_streams e paypal start_date catchup_days schemaless later w')"
    if "get_selected_streams catalog (state w) = before @ later"
    using that by (simp add: sync_def sync_streams_append)
  have b: "streams_marked
          (new_calls w (world_of (sync e paypal catalog start_date catchup_days schemaless w)))
        = map tap_stream_id (get_selected_streams catalog (state w)) \<and>
      schemas_written
          (new_calls w (world_of (sync e paypal catalog start_date catchup_days schemaless w)))
        = map tap_stream_id (get_selected_streams catalog (state w))"
    if r: "returned (sync e paypal catalog start_date catchup_days schemaless w)"
  proof -
    let ?streams = "get_selected_streams catalog (state w)"
    from sync_streams_trace [of e paypal start_date catchup_days schemaless ?streams w]
    obtain new n
      where new: "calls (world_of (sync_streams e paypal start_date catchup_days schemaless ?streams w))
             = calls w @ new"
        "streams_marked new = map tap_stream_id (take n ?streams)"
        "schemas_written new = map tap_stream_id (take n ?streams)"
        "returned (sync_streams e paypal start_date catchup_days schemaless ?streams w)
              \<longrightarrow> n = length ?streams"
      by blast
    from r new(4) have "n = length ?streams" by (simp add: sync_def)
    moreover from new(1)
    have "new_calls w (world_of (sync e paypal catalog start_date catchup_days schemaless w)) = new"
      by (simp add: sync_def new_calls_append)
    ultimately show ?thesis using new(2,3) by simp
  qed
  have c: "sync_stream e paypal start_date catchup_days schemaless stream w
        = sync_rows e stream
            (tap_data catchup_days schemaless
               (get_stream_state e (set_currently_syncing (state w) (tap_stream_id stream))
                  start_date (tap_stream_id stream)))
            (w\<lparr>state := set_currently_syncing (state w) (tap_stream_id stream),
                calls := calls w @
                  [SetCurrentlySyncing (tap_stream_id stream),
                   WriteSchema (tap_stream_id stream) (schema stream) (key_properties stream),
                   Fetch (tap_stream_id stream) catchup_days schemaless
                     (get_stream_state e (set_currently_syncing (state w) (tap_stream_id stream))
                        start_date (tap_stream_id stream))]\<rparr>)"
    if "paypal (tap_stream_id stream) = Some tap_data"
    using that by (simp add: sync_stream_def Let_def call_defs)
  have d: "take (length (calls w) + 2) (calls (world_of (sync_rows e stream (row # rows) w)))
     = calls w @ [NextRow (tap_stream_id stream) row,
                  WriteRecord (tap_stream_id stream) row (utcnow e (clock_reads w))]"
  proof -
    let ?w0 = "log (NextRow (tap_stream_id stream) row) w"
    let ?head = "calls w @ [NextRow (tap_stream_id stream) row,
                  WriteRecord (tap_stream_id stream) row (utcnow e (clock_reads w))]"
    have first: "\<exists>rest. calls (world_of (sync_record e stream row ?w0)) = ?head @ rest"
      by (cases e stream row ?w0 rule: sync_record_cases) (simp_all add: call_defs)
    have "\<exists>rest. calls (world_of (sync_rows e stream (row # rows) w)) = ?head @ rest"
    proof (cases "sync_record e stream row ?w0")
      case (Raised err w1)
      with first show ?thesis by simp
    next
      case (Returned w1)
      from first Returned obtain r1 where "calls w1 = ?head @ r1" by auto
      moreover from sync_rows_trace [of e stream rows w1] obtain r2
        where "calls (world_of (sync_rows e stream rows w1)) = calls w1 @ r2" by blast
      ultimately show ?thesis using Returned by simp
    qed
    then obtain rest where "calls (world_of (sync_rows e stream (row # rows) w)) = ?head @ rest"
      by blast
    then show ?thesis by (simp del: sync_rows.simps)
  qed
  have f: "records_written (new_calls w (world_of (sync_rows e stream rows w)))
        = map (Pair (tap_stream_id stream)) rows"
    if "returned (sync_rows e stream rows w)"
    using that sync_rows_trace [of e stream rows w] by (auto simp: new_calls_append)
  from o1 o2 o3 a b c d f sync_rows_append [of e stream rows_a rows_b w] show ?thesis by blast
qed

theorem sync_driver_order_witness:
  "currently_syncing (state scenario_world) = None \<and>
   get_selected_streams resume_catalog (state scenario_world) = [scenario_stream] @ [balances_stream] \<and>
   returned (sync resume_env resume_paypal resume_catalog ''2020-01-01T00:00:00Z'' 3 False
               scenario_world) \<and>
   streams_marked (new_calls scenario_world
       (world_of (sync resume_env resume_paypal resume_catalog ''2020-01-01T00:00:00Z'' 3 False
                    scenario_world)))
     = [''paypal_transactions'', ''paypal_balances''] \<and>
   schemas_written (new_calls scenario_world
       (world_of (sync resume_env resume_paypal resume_catalog ''2020-01-01T00:00:00Z'' 3 False
                    scenario_world)))
     = [''paypal_transactions'', ''paypal_balances''] \<and>
   sync resume_env resume_paypal resume_catalog ''2020-01-01T00:00:00Z'' 3 False scenario_world
     = (case sync_streams resume_env resume_paypal ''2020-01-01T00:00:00Z'' 3 False
               [scenario_stream] scenario_world of
          Raised err w' \<Rightarrow> Raised err w'
        | Returned w' \<Rightarrow>
            sync_streams resume_env resume_paypal ''2020-01-01T00:00:00Z'' 3 False
              [balances_stream] w') \<and>
   currently_syncing (state resume_world) = Some ''paypal_balances'' \<and>
   ''paypal_balances'' \<in> tap_stream_id ` set (catalog_streams resume_catalog) \<and>
   get_selected_streams resume_catalog (state resume_world) = [balances_stream, scenario_stream] \<and>
   tap_stream_id (hd (rotate (matching_index ''paypal_balances'' (catalog_streams resume_catalog))
                        (catalog_streams resume_catalog)))
     = ''paypal_balances'' \<and>
   get_stream_state resume_env = get_stream_state_spec \<and>
   get_stream_state resume_env
       (set_currently_syncing (state old_world) (tap_stream_id scenario_stream))
       ''2020-01-01T00:00:00Z'' (tap_stream_id scenario_stream)
     = [(''date_modified'', PStr ''2019-12-31T00:00:00Z'')] \<and>
   get_stream_state resume_env
       (set_currently_syncing (state scenario_world) (tap_stream_id scenario_stream))
       ''2020-01-01T00:00:00Z'' (tap_stream_id scenario_stream)
     = [(''start_date'', PStr ''2020-01-01T00:00:00Z'')] \<and>
   resume_paypal (tap_stream_id scenario_stream)
     = Some (\<lambda>catchup_days schemaless kwargs. [scenario_row1, scenario_row2]) \<and>
   sync_stream resume_env resume_paypal ''2020-01-01T00:00:00Z'' 3 False scenario_stream scenario_world
     = sync_rows resume_env scenario_stream [scenario_row1, scenario_row2]
         (scenario_world
            \<lparr>state := set_currently_syncing (state scenario_world) ''paypal_transactions'',
             calls := [SetCurrentlySyncing ''paypal_transactions'',
                       WriteSchema ''paypal_transactions'' (PDict [(''type'', PStr ''object'')]) [''id''],
                       Fetch ''paypal_transactions'' 3 False
                         [(''start_date'', PStr ''2020-01-01T00:00:00Z'')]]\<rparr>) \<and>
   returned (sync_rows resume_env scenario_stream [scenario_row1, scenario_row2] scenario_world) \<and>
   records_written (new_calls scenario_world
       (world_of (sync_rows resume_env scenario_stream [scenario_row1, scenario_row2] scenario_world)))
     = [(''paypal_transactions'', scenario_row1), (''paypal_transactions'', scenario_row2)] \<and>
   sync_rows resume_env scenario_stream ([scenario_row1] @ [scenario_row2]) scenario_world
     = (case sync_rows resume_env scenario_stream [scenario_row1] scenario_world of
          Raised err w' \<Rightarrow> Raised err w'
        | Returned w' \<Rightarrow> sync_rows resume_env scenario_stream [scenario_row2] w')"
proof -
  let ?sd = "''2020-01-01T00:00:00Z''"
  let ?run = "sync resume_env resume_paypal resume_catalog ?sd 3 False scenario_world"
  let ?fetch = "\<lambda>(catchup_days::int) (schemaless::bool) (kwargs::pydict). [scenario_row1, scenario_row2]"
  have m0: "currently_syncing (state scenario_world) = None"
    by (simp add: scenario_world_def empty_state_def)
  have sel: "get_selected_streams resume_catalog (state scenario_world)
               = [scenario_stream] @ [balances_stream]"
    by (simp add: selected_resume_catalog)
  have ret: "returned ?run"
    by (simp add: resume_sync_run)
  have m1: "currently_syncing (state resume_world) = Some ''paypal_balances''"
    by (simp add: resume_world_def)
  have mem: "''paypal_balances'' \<in> tap_stream_id ` set (catalog_streams resume_catalog)"
    by (simp add: resume_catalog_def scenario_stream_ids)
  have hs: "get_stream_state resume_env = get_stream_state_spec"
    by (simp add: resume_facts)
  have pp: "resume_paypal (tap_stream_id scenario_stream) = Some ?fetch"
    by (simp add: resume_facts scenario_stream_ids)
  have rows_ret: "returned (sync_rows resume_env scenario_stream [scenario_row1, scenario_row2]
                    scenario_world)"
    by (simp add: sync_record_def Let_def resume_bookmarks resume_facts scenario_stream_ids)
  note th1 = sync_driver_order
      [where w = scenario_world and catalog = resume_catalog and marked = "''paypal_balances''"
         and e = resume_env and stream = scenario_stream and start_date = ?sd
         and before = "[scenario_stream]" and later = "[balances_stream]"
         and paypal = resume_paypal and catchup_days = 3 and schemaless = False
         and tap_data = ?fetch and rows_a = "[scenario_row1]" and rows_b = "[scenario_row2]"
         and row = scenario_row1 and rows = "[scenario_row1, scenario_row2]"]
  note th2 = sync_driver_order
      [where w = resume_world and catalog = resume_catalog and marked = "''paypal_balances''"
         and e = resume_env and stream = scenario_stream and start_date = ?sd
         and before = "[scenario_stream]" and later = "[balances_stream]"
         and paypal = resume_paypal and catchup_days = 3 and schemaless = False
         and tap_data = ?fetch and rows_a = "[scenario_row1]" and rows_b = "[scenario_row2]"
         and row = scenario_row1 and rows = "[scenario_row1, scenario_row2]"]
  note th3 = sync_driver_order
      [where w = old_world and catalog = resume_catalog and marked = "''paypal_balances''"
         and e = resume_env and stream = scenario_stream and start_date = ?sd
         and before = "[scenario_stream]" and later = "[balances_stream]"
         and paypal = resume_paypal and catchup_days = 3 and schemaless = False
         and tap_data = ?fetch and rows_a = "[scenario_row1]" and rows_b = "[scenario_row2]"
         and row = scenario_row1 and rows = "[scenario_row1, scenario_row2]"]
  from th1 ret
  have marks: "streams_marked (new_calls scenario_world (world_of ?run))
                 = map tap_stream_id (get_selected_streams resume_catalog (state scenario_world))"
    and schemas: "schemas_written (new_calls scenario_world (world_of ?run))
                 = map tap_stream_id (get_selected_streams resume_catalog (state scenario_world))"
    by blast+
  from th1 sel
  have split: "?run
     = (case sync_streams resume_env resume_paypal ?sd 3 False [scenario_stream] scenario_world of
          Raised err w' \<Rightarrow> Raised err w'
        | Returned w' \<Rightarrow> sync_streams resume_env resume_paypal ?sd 3 False [balances_stream] w')"
    by blast
  from th2 m1 mem
  have first: "tap_stream_id (hd (rotate (matching_index ''paypal_balances'' (catalog_streams resume_catalog))
                        (catalog_streams resume_catalog))) = ''paypal_balances''"
    by blast
  from th3 hs
  have kw_old: "get_stream_state resume_env
       (set_currently_syncing (state old_world) (tap_stream_id scenario_stream))
       ?sd (tap_stream_id scenario_stream)
     = (case map_of (bookmarks (state old_world)) (tap_stream_id scenario_stream) of
             None \<Rightarrow> [(''start_date'', PStr ?sd)]
           | Some m \<Rightarrow> m)"
    by blast
  from th1 hs
  have kw_new: "get_stream_state resume_env
       (set_currently_syncing (state scenario_world) (tap_stream_id scenario_stream))
       ?sd (tap_stream_id scenario_stream)
     = (case map_of (bookmarks (state scenario_world)) (tap_stream_id scenario_stream) of
             None \<Rightarrow> [(''start_date'', PStr ?sd)]
           | Some m \<Rightarrow> m)"
    by blast
  from th1 pp
  have step: "sync_stream resume_env resume_paypal ?sd 3 False scenario_stream scenario_world
        = sync_rows resume_env scenario_stream
            (?fetch 3 False
               (get_stream_state resume_env
                  (set_currently_syncing (state scenario_world) (tap_stream_id scenario_stream))
                  ?sd (tap_stream_id scenario_stream)))
            (scenario_world\<lparr>state := set_currently_syncing (state scenario_world) (tap_stream_id scenario_stream),
                calls := calls scenario_world @
                  [SetCurrentlySyncing (tap_stream_id scenario_stream),
                   WriteSchema (tap_stream_id scenario_stream) (schema scenario_stream)
                     (key_properties scenario_stream),
                   Fetch (tap_stream_id scenario_stream) 3 False
                     (get_stream_state resume_env
                        (set_currently_syncing (state scenario_world) (tap_stream_id scenario_stream))
                        ?sd (tap_stream_id scenario_stream))]\<rparr>)"
    by blast
  from th1 rows_ret
  have recs: "records_written (new_calls scenario_world
       (world_of (sync_rows resume_env scenario_stream [scenario_row1, scenario_row2] scenario_world)))
     = map (Pair (tap_stream_id scenario_stream)) [scenario_row1, scenario_row2]"
    by blast
  from th1
  have rows_split: "sync_rows resume_env scenario_stream ([scenario_row1] @ [scenario_row2]) scenario_world
     = (case sync_rows resume_env scenario_stream [scenario_row1] scenario_world of
          Raised err w' \<Rightarrow> Raised err w'
        | Returned w' \<Rightarrow> sync_rows resume_env scenario_stream [scenario_row2] w')"
    by (elim conjE)
  have kw_old': "get_stream_state resume_env
       (set_currently_syncing (state old_world) (tap_stream_id scenario_stream))
       ?sd (tap_stream_id scenario_stream)
     = [(''date_modified'', PStr ''2019-12-31T00:00:00Z'')]"
    unfolding kw_old by (simp add: old_world_def old_state_def scenario_stream_ids)
  have kw_new': "get_stream_state resume_env
       (set_currently_syncing (state scenario_world) (tap_stream_id scenario_stream))
       ?sd (tap_stream_id scenario_stream)
     = [(''start_date'', PStr ?sd)]"
    unfolding kw_new by (simp add: scenario_world_def empty_state_def)
  have c0: "calls scenario_world = []"
    by (simp add: scenario_world_def)
  have step': "sync_stream resume_env resume_paypal ?sd 3 False scenario_stream scenario_world
     = sync_rows resume_env scenario_stream [scenario_row1, scenario_row2]
         (scenario_world
            \<lparr>state := set_currently_syncing (state scenario_world) ''paypal_transactions'',
             calls := [SetCurrentlySyncing ''paypal_transactions'',
                       WriteSchema ''paypal_transactions'' (PDict [(''type'', PStr ''object'')]) [''id''],
                       Fetch ''paypal_transactions'' 3 False
                         [(''start_date'', PStr ?sd)]]\<rparr>)"
    unfolding step kw_new' by (simp only: scenario_stream_ids resume_facts c0 append_Nil)
  have marks': "streams_marked (new_calls scenario_world (world_of ?run))
                 = [''paypal_transactions'', ''paypal_balances'']"
    and schemas': "schemas_written (new_calls scenario_world (world_of ?run))
                 = [''paypal_transactions'', ''paypal_balances'']"
    unfolding marks schemas by (simp_all add: selected_resume_catalog scenario_stream_ids)
  have recs': "records_written (new_calls scenario_world
       (world_of (sync_rows resume_env scenario_stream [scenario_row1, scenario_row2] scenario_world)))
     = [(''paypal_transactions'', scenario_row1), (''paypal_transactions'', scenario_row2)]"
    unfolding recs by (simp add: scenario_stream_ids)
  have sel2: "get_selected_streams resume_catalog (state resume_world) = [balances_stream, scenario_stream]"
    by (simp add: selected_resume_catalog)
  from m0 sel ret marks' schemas' split m1 mem sel2 first hs kw_old' kw_new' pp step' rows_ret recs'
    rows_split
  show ?thesis by (intro conjI)
qed

section \<open>The streams a run reaches, and their schemas\<close>

lemma streams_reached_le:
  "streams_reached e paypal start_date catchup_days schemaless streams w \<le> length streams"
  by (induction streams arbitrary: w) (simp_all split: outcome.splits)

lemma streams_reached_returned:
  "returned (sync_streams e paypal start_date catchup_days schemaless streams w) \<Longrightarrow>
   streams_reached e paypal start_date catchup_days schemaless streams w = length streams"
  by (induction streams arbitrary: w) (simp_all split: outcome.splits)

lemma streams_reached_append:
  "streams_reached e paypal start_date catchup_days schemaless (before @ rest) w =
     (case sync_streams e paypal start_date catchup_days schemaless before w of
        Raised err w' \<Rightarrow> streams_reached e paypal start_date catchup_days schemaless before w
      | Returned w' \<Rightarrow>
          length before + streams_reached e paypal start_date catchup_days schemaless rest w')"
  by (induction before arbitrary: w) (simp_all split: outcome.splits)

lemma sync_streams_schemas:
  "\<exists>new. calls (world_of (sync_streams e paypal start_date catchup_days schemaless streams w))
           = calls w @ new \<and>
         schemas_written new
           = map tap_stream_id
               (take (streams_reached e paypal start_date catchup_days schemaless streams w) streams)"
proof (induction streams arbitrary: w)
  case Nil
  then show ?case by simp
next
  case (Cons stream streams)
  let ?o1 = "sync_stream e paypal start_date catchup_days schemaless stream w"
  from sync_stream_trace [of e paypal start_date catchup_days schemaless stream w] obtain rest
    where rest: "calls (world_of ?o1) = calls w @ SetCurrentlySyncing (tap_stream_id stream)
               # WriteSchema (tap_stream_id stream) (schema stream) (key_properties stream) # rest"
      "schemas_written rest = []"
    by blast
  let ?first = "SetCurrentlySyncing (tap_stream_id stream)
               # WriteSchema (tap_stream_id stream) (schema stream) (key_properties stream) # rest"
  show ?case
  proof (cases ?o1)
    case (Raised err w1)
    with rest show ?thesis
      by (intro exI [of _ ?first]) simp
  next
    case (Returned w1)
    from Cons.IH [of w1] obtain new
      where new: "calls (world_of (sync_streams e paypal start_date catchup_days schemaless streams w1))
                    = calls w1 @ new"
        "schemas_written new
           = map tap_stream_id
               (take (streams_reached e paypal start_date catchup_days schemaless streams w1) streams)"
      by blast
    with rest Returned show ?thesis
      by (intro exI [of _ "?first @ new"]) (simp add: schemas_written_append)
  qed
qed

text \<open>
  Claim C6, as stated, fails when the run aborts before it reaches the stream: with a
  catalog that selects first a stream the client has no method for and then the stream
  of the scenario, which the client does have a method for, the schema of the latter
  is never written.
\<close>

theorem schema_never_written_counterexample:
  "scenario_stream \<in> set (get_selected_streams two_stream_catalog (state scenario_world)) \<and>
   scenario_paypal (tap_stream_id scenario_stream) \<noteq> None \<and>
   count_list
     (schemas_written (calls (world_of
        (sync scenario_env scenario_paypal two_stream_catalog ''2020-01-01T00:00:00Z'' 3 False
           scenario_world))))
     (tap_stream_id scenario_stream) = 0"
proof -
  have "sync scenario_env scenario_paypal two_stream_catalog ''2020-01-01T00:00:00Z'' 3 False
          scenario_world
        = Raised (AttributeError ''paypal_refunds'')
            (scenario_world
               \<lparr>state := empty_state\<lparr>currently_syncing := Some ''paypal_refunds''\<rparr>,
                calls := [SetCurrentlySyncing ''paypal_refunds'',
                          WriteSchema ''paypal_refunds'' (PDict []) [''id'']]\<rparr>)"
    by (simp add: sync_def selected_two_stream_catalog sync_stream_def call_defs)
       (simp add: scenario_paypal_def unregistered_stream_def scenario_world_def
          set_currently_syncing_def)
  then show ?thesis
    by (simp add: selected_two_stream_catalog scenario_paypal_def scenario_stream_ids)
qed

text \<open>
  Claim C6, amended. A selected stream is reached when every selected stream before
  it has returned. The schemas a run of \<^verbatim>\<open>sync\<close> writes are those of the streams it
  reaches, one for each in the order they are processed, whether the run returns or
  aborts; in a run that returns every selected stream is reached. For a stream that
  is reached, the pass over it writes its schema exactly once, as the call right
  after the marker is set and before any record of the pass, also when the pass
  itself then raises. A stream that is not reached, because an earlier one raised,
  has no schema written for it. In every run each record in the log comes after a
  schema of its own stream.
\<close>

theorem schema_once_before_records:
  "schemas_written
       (new_calls w (world_of (sync e paypal catalog start_date catchup_days schemaless w)))
     = map tap_stream_id
         (take (streams_reached e paypal start_date catchup_days schemaless
                  (get_selected_streams catalog (state w)) w)
            (get_selected_streams catalog (state w))) \<and>
   (returned (sync e paypal catalog start_date catchup_days schemaless w) \<longrightarrow>
      streams_reached e paypal start_date catchup_days schemaless
          (get_selected_streams catalog (state w)) w
        = length (get_selected_streams catalog (state w))) \<and>
   (get_selected_streams catalog (state w) = before @ stream # later \<longrightarrow>
    sync_streams e paypal start_date catchup_days schemaless before w = Returned w_before \<longrightarrow>
      length before
        < streams_reached e paypal start_date catchup_days schemaless
            (get_selected_streams catalog (state w)) w \<and>
      schemas_written
          (new_calls w_before
             (world_of (sync_stream e paypal start_date catchup_days schemaless stream w_before)))
        = [tap_stream_id stream] \<and>
      take 2 (new_calls w_before
                (world_of (sync_stream e paypal start_date catchup_days schemaless stream w_before)))
        = [SetCurrentlySyncing (tap_stream_id stream),
           WriteSchema (tap_stream_id stream) (schema stream) (key_properties stream)] \<and>
      fst ` set (records_written
          (new_calls w_before
             (world_of (sync_stream e paypal start_date catchup_days schemaless stream w_before))))
        \<subseteq> {tap_stream_id stream}) \<and>
   (get_selected_streams catalog (state w) = before @ stream # later \<longrightarrow>
    \<not> returned (sync_streams e paypal start_date catchup_days schemaless before w) \<longrightarrow>
      streams_reached e paypal start_date catchup_days schemaless
          (get_selected_streams catalog (state w)) w
        \<le> length before) \<and>
   records_follow_schema {}
     (new_calls w (world_of (sync e paypal catalog start_date catchup_days schemaless w))) \<and>
   (\<forall>pre sid row t post.
      new_calls w (world_of (sync e paypal catalog start_date catchup_days schemaless w))
        = pre @ WriteRecord sid row t # post \<longrightarrow>
      sid \<in> set (schemas_written pre))"
proof -
  let ?streams = "get_selected_streams catalog (state w)"
  let ?new = "new_calls w (world_of (sync e paypal catalog start_date catchup_days schemaless w))"
  let ?n = "streams_reached e paypal start_date catchup_days schemaless ?streams w"
  from sync_streams_schemas [of e paypal start_date catchup_days schemaless ?streams w]
  obtain new
    where new: "calls (world_of (sync_streams e paypal start_date catchup_days schemaless ?streams w))
             = calls w @ new"
      "schemas_written new = map tap_stream_id (take ?n ?streams)"
    by blast
  from new(1) have eq: "?new = new"
    by (simp add: sync_def new_calls_append)
  have a: "schemas_written ?new = map tap_stream_id (take ?n ?streams)"
    using new(2) eq by simp
  have b: "?n = length ?streams"
    if "returned (sync e paypal catalog start_date catchup_days schemaless w)"
    using that by (simp add: sync_def streams_reached_returned)
  have c: "length before < ?n \<and>
      schemas_written
          (new_calls w_before
             (world_of (sync_stream e paypal start_date catchup_days schemaless stream w_before)))
        = [tap_stream_id stream] \<and>
      take 2 (new_calls w_before
                (world_of (sync_stream e paypal start_date catchup_days schemaless stream w_before)))
        = [SetCurrentlySyncing (tap_stream_id stream),
           WriteSchema (tap_stream_id stream) (schema stream) (key_properties stream)] \<and>
      fst ` set (records_written
          (new_calls w_before
             (world_of (sync_stream e paypal start_date catchup_days schemaless stream w_before))))
        \<subseteq> {tap_stream_id stream}"
    if split: "?streams = before @ stream # later"
      and run: "sync_streams e paypal start_date catchup_days schemaless before w = Returned w_before"
  proof -
    have "length before < ?n"
      unfolding split using run by (simp add: streams_reached_append)
    moreover
    from sync_stream_trace [of e paypal start_date catchup_days schemaless stream w_before]
    obtain rest
      where rest: "calls (world_of (sync_stream e paypal start_date catchup_days schemaless stream w_before))
           = calls w_before @ SetCurrentlySyncing (tap_stream_id stream)
               # WriteSchema (tap_stream_id stream) (schema stream) (key_properties stream) # rest"
        "schemas_written rest = []"
        "fst ` set (records_written rest) \<subseteq> {tap_stream_id stream}"
      by blast
    from rest(1)
    have "new_calls w_before
            (world_of (sync_stream e paypal start_date catchup_days schemaless stream w_before))
          = SetCurrentlySyncing (tap_stream_id stream)
               # WriteSchema (tap_stream_id stream) (schema stream) (key_properties stream) # rest"
      by (rule new_calls_append)
    ultimately show ?thesis
      using rest(2,3) by simp
  qed
  have d: "?n \<le> length before"
    if split: "?streams = before @ stream # later"
      and run: "\<not> returned (sync_streams e paypal start_date catchup_days schemaless before w)"
  proof -
    from run obtain err w1
      where "sync_streams e paypal start_date catchup_days schemaless before w = Raised err w1"
      by (cases "sync_streams e paypal start_date catchup_days schemaless before w") auto
    then have "?n = streams_reached e paypal start_date catchup_days schemaless before w"
      unfolding split by (simp add: streams_reached_append)
    then show ?thesis
      using streams_reached_le [of e paypal start_date catchup_days schemaless before w] by simp
  qed
  from sync_streams_trace [of e paypal start_date catchup_days schemaless ?streams w]
  obtain new' where "calls (world_of (sync_streams e paypal start_date catchup_days schemaless ?streams w))
             = calls w @ new'" and follows: "\<forall>seen. records_follow_schema seen new'"
    by blast
  with new(1) have "new' = new" by simp
  with follows eq have follow: "records_follow_schema {} ?new" by simp
  have f: "sid \<in> set (schemas_written pre)" if "?new = pre @ WriteRecord sid row t # post"
    for pre sid row t post
    using records_follow_schema_sound [OF follow that] by simp
  from a b c d follow f show ?thesis by blast
qed

theorem schema_once_before_records_witness:
  "get_selected_streams two_stream_catalog (state scenario_world)
     = [] @ unregistered_stream # [scenario_stream] \<and>
   sync_streams scenario_env scenario_paypal ''2020-01-01T00:00:00Z'' 3 False [] scenario_world
     = Returned scenario_world \<and>
   get_selected_streams two_stream_catalog (state scenario_world)
     = [unregistered_stream] @ scenario_stream # [] \<and>
   \<not> returned (sync_streams scenario_env scenario_paypal ''2020-01-01T00:00:00Z'' 3 False
                  [unregistered_stream] scenario_world) \<and>
   streams_reached scenario_env scenario_paypal ''2020-01-01T00:00:00Z'' 3 False
       (get_selected_streams two_stream_catalog (state scenario_world)) scenario_world = 1 \<and>
   schemas_written (new_calls scenario_world
       (world_of (sync scenario_env scenario_paypal two_stream_catalog ''2020-01-01T00:00:00Z'' 3 False
                    scenario_world)))
     = [''paypal_refunds''] \<and>
   schemas_written (new_calls scenario_world
       (world_of (sync_stream scenario_env scenario_paypal ''2020-01-01T00:00:00Z'' 3 False
                    unregistered_stream scenario_world)))
     = [''paypal_refunds''] \<and>
   returned (sync resume_env resume_paypal resume_catalog ''2020-01-01T00:00:00Z'' 3 False
               scenario_world) \<and>
   schemas_written (new_calls scenario_world
       (world_of (sync resume_env resume_paypal resume_catalog ''2020-01-01T00:00:00Z'' 3 False
                    scenario_world)))
     = [''paypal_transactions'', ''paypal_balances''] \<and>
   records_follow_schema {} (new_calls scenario_world
       (world_of (sync resume_env resume_paypal resume_catalog ''2020-01-01T00:00:00Z'' 3 False
                    scenario_world)))"
proof -
  let ?sd = "''2020-01-01T00:00:00Z''"
  let ?two = "get_selected_streams two_stream_catalog (state scenario_world)"
  let ?n = "streams_reached scenario_env scenario_paypal ?sd 3 False ?two scenario_world"
  have selA: "?two = [] @ unregistered_stream # [scenario_stream]"
    and selB: "?two = [unregistered_stream] @ scenario_stream # []"
    by (simp_all add: selected_two_stream_catalog)
  have runA: "sync_streams scenario_env scenario_paypal ?sd 3 False [] scenario_world
                = Returned scenario_world"
    by simp
  have none: "scenario_paypal (tap_stream_id unregistered_stream) = None"
    by (simp add: scenario_paypal_def unregistered_stream_def)
  have runB: "\<not> returned (sync_streams scenario_env scenario_paypal ?sd 3 False
                  [unregistered_stream] scenario_world)"
    using none by (simp add: sync_stream_unregistered)
  have ret: "returned (sync resume_env resume_paypal resume_catalog ?sd 3 False scenario_world)"
    by (simp add: resume_sync_run)
  note thA = schema_once_before_records
      [where w = scenario_world and e = scenario_env and paypal = scenario_paypal
         and catalog = two_stream_catalog and start_date = ?sd and catchup_days = 3
         and schemaless = False and before = "[]" and stream = unregistered_stream
         and later = "[scenario_stream]" and w_before = scenario_world]
  note thB = schema_once_before_records
      [where w = scenario_world and e = scenario_env and paypal = scenario_paypal
         and catalog = two_stream_catalog and start_date = ?sd and catchup_days = 3
         and schemaless = False and before = "[unregistered_stream]" and stream = scenario_stream
         and later = "[]" and w_before = scenario_world]
  note thC = schema_once_before_records
      [where w = scenario_world and e = resume_env and paypal = resume_paypal
         and catalog = resume_catalog and start_date = ?sd and catchup_days = 3
         and schemaless = False and before = "[]" and stream = scenario_stream
         and later = "[balances_stream]" and w_before = scenario_world]
  from thA selA runA have lo: "length ([]::CatalogEntry list) < ?n"
    and pass: "schemas_written (new_calls scenario_world
       (world_of (sync_stream scenario_env scenario_paypal ?sd 3 False unregistered_stream
                    scenario_world)))
     = [tap_stream_id unregistered_stream]"
    by blast+
  from thB selB runB have hi: "?n \<le> length [unregistered_stream]"
    by blast
  from lo hi have n: "?n = 1" by simp
  from thA have "schemas_written (new_calls scenario_world
       (world_of (sync scenario_env scenario_paypal two_stream_catalog ?sd 3 False scenario_world)))
     = map tap_stream_id (take ?n ?two)"
    by (elim conjE)
  then have schemas: "schemas_written (new_calls scenario_world
       (world_of (sync scenario_env scenario_paypal two_stream_catalog ?sd 3 False scenario_world)))
     = [''paypal_refunds'']"
    unfolding n by (simp add: selected_two_stream_catalog scenario_stream_ids)
  from pass have pass': "schemas_written (new_calls scenario_world
       (world_of (sync_stream scenario_env scenario_paypal ?sd 3 False unregistered_stream
                    scenario_world)))
     = [''paypal_refunds'']"
    by (simp add: scenario_stream_ids)
  from thC ret
  have all: "streams_reached resume_env resume_paypal ?sd 3 False
          (get_selected_streams resume_catalog (state scenario_world)) scenario_world
        = length (get_selected_streams resume_catalog (state scenario_world))"
    by blast
  from thC have "schemas_written (new_calls scenario_world
       (world_of (sync resume_env resume_paypal resume_catalog ?sd 3 False scenario_world)))
     = map tap_stream_id
         (take (streams_reached resume_env resume_paypal ?sd 3 False
                  (get_selected_streams resume_catalog (state scenario_world)) scenario_world)
            (get_selected_streams resume_catalog (state scenario_world)))"
    by (elim conjE)
  then have schemas2: "schemas_written (new_calls scenario_world
       (world_of (sync resume_env resume_paypal resume_catalog ?sd 3 False scenario_world)))
     = [''paypal_transactions'', ''paypal_balances'']"
    unfolding all by (simp add: selected_resume_catalog scenario_stream_ids)
  from thC have follow: "records_follow_schema {} (new_calls scenario_world
       (world_of (sync resume_env resume_paypal resume_catalog ?sd 3 False scenario_world)))"
    by (elim conjE)
  from selA runA selB runB n schemas pass' ret schemas2 follow show ?thesis
    by (intro conjI)
qed

end
